theory Spec2Isabelle
  imports Complex_Main
begin

section \<open>Text: the string methods the client calls\<close>

text \<open>
  Python text is modelled by \<^typ>\<open>string\<close>, each character read as a code point below
  256.  \<open>str.strip()\<close> removes the characters for which \<open>str.isspace()\<close> holds; below
  256 these are U+0009..U+000D, U+001C..U+0020, U+0085 and U+00A0.  \<open>str.lower()\<close> maps
  A..Z and the Latin-1 capitals U+00C0..U+00DE (the multiplication sign U+00D7 apart) to
  the letter 32 places further on, and leaves every other character alone.
\<close>

definition isspace :: "char \<Rightarrow> bool" where
  "isspace c =
     (let n = (of_char c :: nat)
      in (9 \<le> n \<and> n \<le> 13) \<or> (28 \<le> n \<and> n \<le> 32) \<or> n = 133 \<or> n = 160)"

definition lstrip :: "string \<Rightarrow> string" where
  "lstrip s = dropWhile isspace s"

definition rstrip :: "string \<Rightarrow> string" where
  "rstrip s = rev (dropWhile isspace (rev s))"

definition strip :: "string \<Rightarrow> string" where
  "strip s = rstrip (lstrip s)"

definition lower_char :: "char \<Rightarrow> char" where
  "lower_char c =
     (let n = (of_char c :: nat)
      in if (65 \<le> n \<and> n \<le> 90) \<or> (192 \<le> n \<and> n \<le> 222 \<and> n \<noteq> 215)
         then char_of (n + 32) else c)"

definition lower :: "string \<Rightarrow> string" where
  "lower s = map lower_char s"

text \<open>\<open>sub in s\<close> for two strings: \<open>sub\<close> occurs in \<open>s\<close> as a contiguous run.\<close>

fun starts_with :: "string \<Rightarrow> string \<Rightarrow> bool" where
  "starts_with [] s = True"
| "starts_with (a # p) [] = False"
| "starts_with (a # p) (b # s) = (a = b \<and> starts_with p s)"

fun str_contains :: "string \<Rightarrow> string \<Rightarrow> bool" where
  "str_contains sub [] = (sub = [])"
| "str_contains sub (c # s) = (starts_with sub (c # s) \<or> str_contains sub s)"

text \<open>\<open>str(n)\<close> for a natural number: its decimal digits.\<close>

fun str_nat :: "nat \<Rightarrow> string" where
  "str_nat n =
     (if n < 10 then [char_of (48 + n)]
      else str_nat (n div 10) @ [char_of (48 + n mod 10)])"

declare str_nat.simps [simp del]

section \<open>Values, exceptions and the outside world\<close>

text \<open>
  What \<open>resp.json()\<close> can return: \<open>None\<close>, a \<open>bool\<close>, an \<open>int\<close>, a \<open>float\<close>, a \<open>str\<close>,
  a \<open>list\<close> or a \<open>dict\<close> with string keys.  The client never computes with a float, so
  floats are values of an arbitrary type \<open>'f\<close>.  A dictionary is the association list of
  its items, read with \<^const>\<open>map_of\<close>.
\<close>

datatype 'f json =
    JNull
  | JBool bool
  | JInt int
  | JFloat 'f
  | JString string
  | JArray "'f json list"
  | JObject "(string \<times> 'f json) list"

text \<open>
  The exceptions that can leave the client's functions.  \<open>RuntimeError\<close> carries its
  message; the others are raised by Python itself or by the libraries, and only their
  class matters here.  \<open>MarkupError\<close> is the one \<open>rich\<close> raises when it renders text
  whose markup tags do not match.
\<close>

datatype pyerr =
    RuntimeError string
  | TypeError
  | AttributeError
  | KeyError
  | JSONDecodeError
  | EOFError
  | MarkupError

text \<open>A chat message is a \<open>Dict[str, str]\<close> with the keys \<open>role\<close> and \<open>content\<close>.\<close>

record message =
  m_role :: string
  m_content :: string

text \<open>The \<open>payload\<close> dictionary and the arguments of \<open>requests.post\<close>.\<close>

record 'f options =
  o_temperature :: 'f
  o_num_predict :: int

record 'f payload =
  p_model :: string
  p_messages :: "message list"
  p_stream :: bool
  p_options :: "'f options"

record 'f request =
  r_url :: string
  r_json :: "'f payload"
  r_timeout :: int

text \<open>
  A response as far as the client reads it: the status line, the URL, and what
  \<open>resp.json()\<close> gives (\<open>None\<close> when the body is not JSON and the call raises).
\<close>

record 'f response =
  status_code :: nat
  reason :: string
  resp_url :: string
  resp_json :: "'f json option"

text \<open>
  \<open>requests.post\<close> either raises a \<open>requests.RequestException\<close> (connection refused,
  timeout, ...), of which the client reads only \<open>str(e)\<close>, or returns a response.
\<close>

datatype 'f post_result =
    RequestException string
  | Response "'f response"

text \<open>
  The surroundings of the process: the environment variables; what a call of
  \<open>requests.post\<close> gives, with the library and the server behind it (the calls made
  before and the current one are known to it); Python's \<open>repr\<close> on the values that are
  not strings; whether \<open>rich\<close> raises \<open>MarkupError\<close> on a text, asked only for the texts
  that \<open>markup_raises\<close> below does not decide; and the HTTP \<open>POST\<close> requests, each a URL
  and a body, that a call of \<open>requests.post\<close> puts on the wire.
\<close>

record 'f env =
  environ :: "string \<Rightarrow> string option"
  post :: "'f request list \<Rightarrow> 'f request \<Rightarrow> 'f post_result"
  repr :: "'f json \<Rightarrow> string"
  markup_error :: "string \<Rightarrow> bool"
  wire :: "'f request list \<Rightarrow> 'f request \<Rightarrow> (string \<times> 'f payload) list"

text \<open>What \<open>console.print\<close> is called with.\<close>

datatype printed =
    Banner string
  | ErrorLine pyerr
  | AnswerPanel string
  | AnswerLine string

text \<open>
  The mutable state: the list object that \<open>history\<close> (in \<open>chat\<close>) or \<open>messages\<close> (in
  \<open>ask\<close>) names, the calls of \<open>requests.post\<close> made so far, and the console.
\<close>

record 'f world =
  transcript :: "message list"
  sent :: "'f request list"
  console :: "printed list"

text \<open>
  How a command ends: it returns, raises \<open>typer.Exit(code)\<close>, or an exception escapes
  (the interpreter then exits with status 1).
\<close>

datatype ending =
    Returned
  | Exit int
  | Uncaught pyerr

definition exit_status :: "ending \<Rightarrow> int" where
  "exit_status e = (case e of Returned \<Rightarrow> 0 | Exit c \<Rightarrow> c | Uncaught _ \<Rightarrow> 1)"

section \<open>Python operations on parsed JSON\<close>

text \<open>\<open>k in v\<close> for a string \<open>k\<close>: keys of a dict, elements of a list, substrings of a
  string; \<open>TypeError\<close> on everything else.\<close>

definition py_in :: "string \<Rightarrow> 'f json \<Rightarrow> pyerr + bool" where
  "py_in k v =
     (case v of
        JObject kv \<Rightarrow> Inr (map_of kv k \<noteq> None)
      | JArray xs \<Rightarrow> Inr (List.member xs (JString k))
      | JString s \<Rightarrow> Inr (str_contains k s)
      | _ \<Rightarrow> Inl TypeError)"

text \<open>\<open>v[k]\<close> for a string \<open>k\<close>: only a dict can be indexed by a string.\<close>

definition py_getitem :: "'f json \<Rightarrow> string \<Rightarrow> pyerr + 'f json" where
  "py_getitem v k =
     (case v of
        JObject kv \<Rightarrow> (case map_of kv k of None \<Rightarrow> Inl KeyError | Some x \<Rightarrow> Inr x)
      | _ \<Rightarrow> Inl TypeError)"

text \<open>\<open>v.strip()\<close>: only \<open>str\<close> has the method.\<close>

definition py_strip :: "'f json \<Rightarrow> pyerr + string" where
  "py_strip v = (case v of JString s \<Rightarrow> Inr (strip s) | _ \<Rightarrow> Inl AttributeError)"

text \<open>\<open>str(v)\<close>: a string is itself, every other value is its \<open>repr\<close>.\<close>

definition py_str :: "'f env \<Rightarrow> 'f json \<Rightarrow> string" where
  "py_str env v = (case v of JString s \<Rightarrow> s | _ \<Rightarrow> repr env v)"

text \<open>
  \<open>Response.raise_for_status()\<close> of \<open>requests\<close>: the message of the \<open>HTTPError\<close> it
  raises, for a status from 400 to 599, and \<open>None\<close> when it returns.
\<close>

definition raise_for_status :: "'f response \<Rightarrow> string option" where
  "raise_for_status r =
     (if 400 \<le> status_code r \<and> status_code r < 500
      then Some (str_nat (status_code r) @ '' Client Error: '' @ reason r
                 @ '' for url: '' @ resp_url r)
      else if 500 \<le> status_code r \<and> status_code r < 600
      then Some (str_nat (status_code r) @ '' Server Error: '' @ reason r
                 @ '' for url: '' @ resp_url r)
      else None)"

section \<open>Printing with \<open>rich\<close>\<close>

text \<open>
  \<open>console.print\<close> renders its text as markup.  \<open>rich\<close> reads as a tag a \<open>[\<close> followed by
  one of \<open>a\<close> to \<open>z\<close>, \<open>#\<close>, \<open>/\<close>, \<open>@\<close>, then characters other than \<open>[\<close>, up to the next
  \<open>]\<close>; a backslash in front of the \<open>[\<close> can escape the tag.  A tag that starts with
  \<open>/\<close> closes an open tag, and \<open>rich\<close> raises \<open>MarkupError\<close> when there is none to close.

  \<open>find_tag\<close> looks for the first \<open>[\<close> followed by one of those characters; it gives
  whether a backslash stands in front of it, that character, and the text after it.
  \<open>tag_closes\<close> says that in the text after it a \<open>]\<close> comes before any \<open>[\<close>.
\<close>

definition tag_char :: "char \<Rightarrow> bool" where
  "tag_char c =
     (let n = (of_char c :: nat)
      in (97 \<le> n \<and> n \<le> 122) \<or> c = CHR ''#'' \<or> c = CHR ''/'' \<or> c = CHR ''@'')"

fun find_tag :: "bool \<Rightarrow> string \<Rightarrow> (bool \<times> char \<times> string) option" where
  "find_tag esc (c # d # s) =
     (if c = CHR ''['' \<and> tag_char d then Some (esc, d, s)
      else find_tag (c = CHR 0x5C) (d # s))"
| "find_tag esc s = None"

fun tag_closes :: "string \<Rightarrow> bool" where
  "tag_closes [] = False"
| "tag_closes (c # s) =
     (if c = CHR '']'' then True else if c = CHR ''['' then False else tag_closes s)"

text \<open>
  Whether rendering a text raises \<open>MarkupError\<close>.  A text without a tag is printed as it
  is.  When the first tag is a closing tag with no backslash in front, nothing is open
  and \<open>rich\<close> raises.  Every other text (one whose first tag is escaped, opens a style or
  is cut short) is decided by the style names and the tags that follow: that is left to
  \<^const>\<open>markup_error\<close>.
\<close>

definition markup_raises :: "'f env \<Rightarrow> string \<Rightarrow> bool" where
  "markup_raises env t =
     (case find_tag False t of
        None \<Rightarrow> False
      | Some (esc, d, s) \<Rightarrow>
          if \<not> esc \<and> d = CHR ''/'' \<and> tag_closes s then True else markup_error env t)"

text \<open>
  The four calls of \<open>console.print\<close>.  The fixed parts of the lines printed (the banner
  around the model name, \<open>[red]Error:[/]\<close> in front of the error) open and close their own
  tags and end in a space or a bracket that is no tag, so whether a line raises depends
  on the text put into it alone.  The messages of the exceptions that Python and the
  libraries raise themselves, which are fixed phrases with type names and positions,
  hold no tag.
\<close>

definition print_raises :: "'f env \<Rightarrow> printed \<Rightarrow> bool" where
  "print_raises env p =
     (case p of
        Banner model \<Rightarrow> markup_raises env model
      | ErrorLine e \<Rightarrow> (case e of RuntimeError msg \<Rightarrow> markup_raises env msg | _ \<Rightarrow> False)
      | AnswerPanel answer \<Rightarrow> markup_raises env answer
      | AnswerLine answer \<Rightarrow> markup_raises env answer)"

definition console_print :: "'f env \<Rightarrow> printed \<Rightarrow> 'f world \<Rightarrow> pyerr + 'f world" where
  "console_print env p w =
     (if print_raises env p then Inl MarkupError
      else Inr (w\<lparr>console := console w @ [p]\<rparr>))"

section \<open>The client (\<open>chatbot.py\<close>)\<close>

definition DEFAULT_OLLAMA_URL :: "'f env \<Rightarrow> string" where
  "DEFAULT_OLLAMA_URL env =
     (case environ env ''OLLAMA_URL'' of Some u \<Rightarrow> u | None \<Rightarrow> ''http://localhost:11434'')"

definition SYSTEM_PROMPT :: string where
  "SYSTEM_PROMPT =
     ''You are TeachMeFinance, a *financial education* assistant.'' @ [CHR 0x0A] @
     ''Your goals:'' @ [CHR 0x0A] @
     ''- Explain personal-finance concepts clearly (budgeting, saving, emergency funds, diversification, index funds, retirement accounts, risk tolerance).'' @ [CHR 0x0A] @
     ''- Be concise, structured, and beginner-friendly; use examples or rules of thumb where helpful.'' @ [CHR 0x0A] @
     ''- You are **not** a financial advisor; avoid personalized investment advice or fiduciary recommendations.'' @ [CHR 0x0A] @
     ''- If the user asks for individualized advice, provide general education and suggest consulting a licensed professional for personal recommendations.'' @ [CHR 0x0A] @
     ''- Avoid giving tax/legal advice; you may explain general concepts with disclaimers.'' @ [CHR 0x0A] @
     ''- When math is needed, show steps briefly and state assumptions.'' @ [CHR 0x0A]"

text \<open>Lines 33 to 44: the URL, the payload and the timeout handed to \<open>requests.post\<close>.\<close>

definition chat_request ::
  "string \<Rightarrow> message list \<Rightarrow> 'f \<Rightarrow> int \<Rightarrow> string \<Rightarrow> 'f request" where
  "chat_request model messages temperature max_tokens base_url =
     \<lparr>r_url = base_url @ ''/api/chat'',
      r_json = \<lparr>p_model = model, p_messages = messages, p_stream = False,
                p_options = \<lparr>o_temperature = temperature, o_num_predict = max_tokens\<rparr>\<rparr>,
      r_timeout = 120\<rparr>"

text \<open>
  Lines 50 to 55: the answer in the parsed body.  \<open>and\<close> evaluates its right operand only
  when the left one is true, and an exception in either leaves the function.
\<close>

definition extract_answer :: "'f env \<Rightarrow> 'f json \<Rightarrow> pyerr + string" where
  "extract_answer env data =
     (case py_in ''message'' data of
        Inl e \<Rightarrow> Inl e
      | Inr has_message \<Rightarrow>
          (case (if has_message
                 then (case py_getitem data ''message'' of
                         Inl e \<Rightarrow> Inl e
                       | Inr m \<Rightarrow> py_in ''content'' m)
                 else Inr False) of
             Inl e \<Rightarrow> Inl e
           | Inr True \<Rightarrow>
               (case py_getitem data ''message'' of
                  Inl e \<Rightarrow> Inl e
                | Inr m \<Rightarrow>
                    (case py_getitem m ''content'' of
                       Inl e \<Rightarrow> Inl e
                     | Inr c \<Rightarrow> py_strip c))
           | Inr False \<Rightarrow>
               (case py_in ''response'' data of
                  Inl e \<Rightarrow> Inl e
                | Inr True \<Rightarrow>
                    (case py_getitem data ''response'' of
                       Inl e \<Rightarrow> Inl e
                     | Inr v \<Rightarrow> Inr (strip (py_str env v)))
                | Inr False \<Rightarrow> Inl (RuntimeError ''Unexpected Ollama response schema''))))"

text \<open>
  \<open>chat_completion_ollama\<close>: one call of \<open>requests.post\<close>, recorded in \<^const>\<open>sent\<close>;
  a \<open>RequestException\<close> from the call or from \<open>raise_for_status\<close> becomes a
  \<open>RuntimeError\<close>; \<open>resp.json()\<close> and the extraction run outside the \<open>try\<close>.
\<close>

definition chat_completion_ollama ::
  "'f env \<Rightarrow> string \<Rightarrow> message list \<Rightarrow> 'f \<Rightarrow> int \<Rightarrow> string \<Rightarrow> 'f world
     \<Rightarrow> (pyerr + string) \<times> 'f world" where
  "chat_completion_ollama env model messages temperature max_tokens base_url w =
     (let req = chat_request model messages temperature max_tokens base_url;
          w' = w\<lparr>sent := sent w @ [req]\<rparr>
      in case post env (sent w) req of
           RequestException e \<Rightarrow> (Inl (RuntimeError (''Ollama request failed: '' @ e)), w')
         | Response resp \<Rightarrow>
             (case raise_for_status resp of
                Some e \<Rightarrow> (Inl (RuntimeError (''Ollama request failed: '' @ e)), w')
              | None \<Rightarrow>
                  (case resp_json resp of
                     None \<Rightarrow> (Inl JSONDecodeError, w')
                   | Some data \<Rightarrow> (extract_answer env data, w'))))"

text \<open>
  One turn of the \<open>while True\<close> loop of \<open>chat\<close>, for the line that \<open>Prompt.ask\<close>
  returned.  The turn ends in \<open>break\<close>, or the loop goes on (after \<open>continue\<close> or at the
  end of the body), or an exception leaves the loop.  \<open>except Exception\<close> catches every
  exception the bridge can raise; what \<open>console.print\<close> raises, in the handler or after
  it, is caught by nothing.
\<close>

datatype turn_end =
    Break
  | Continue
  | Raised pyerr

definition chat_turn ::
  "'f env \<Rightarrow> string \<Rightarrow> 'f \<Rightarrow> int \<Rightarrow> string \<Rightarrow> 'f world \<Rightarrow> turn_end \<times> 'f world" where
  "chat_turn env model temperature max_tokens line w =
     (let q = strip line
      in if lower q = ''exit'' \<or> lower q = ''quit'' then (Break, w)
         else
           let w1 = w\<lparr>transcript := transcript w @ [\<lparr>m_role = ''user'', m_content = q\<rparr>]\<rparr>
           in case chat_completion_ollama env model (transcript w1) temperature max_tokens
                     (DEFAULT_OLLAMA_URL env) w1 of
                (Inl e, w2) \<Rightarrow>
                  (case console_print env (ErrorLine e) w2 of
                     Inl x \<Rightarrow> (Raised x, w2)
                   | Inr w3 \<Rightarrow> (Continue, w3))
              | (Inr answer, w2) \<Rightarrow>
                  (let w3 = w2\<lparr>transcript :=
                                transcript w2 @ [\<lparr>m_role = ''assistant'', m_content = answer\<rparr>]\<rparr>
                   in case console_print env (AnswerPanel answer) w3 of
                        Inl x \<Rightarrow> (Raised x, w3)
                      | Inr w4 \<Rightarrow> (Continue, w4)))"

text \<open>
  The loop over the lines typed.  It has no other way out than \<open>break\<close> and an
  exception: when the input ends, \<open>Prompt.ask\<close> raises \<open>EOFError\<close>, which nothing catches.
\<close>

fun chat_loop ::
  "'f env \<Rightarrow> string \<Rightarrow> 'f \<Rightarrow> int \<Rightarrow> string list \<Rightarrow> 'f world \<Rightarrow> ending \<times> 'f world" where
  "chat_loop env model temperature max_tokens [] w = (Uncaught EOFError, w)"
| "chat_loop env model temperature max_tokens (line # rest) w =
     (case chat_turn env model temperature max_tokens line w of
        (Break, w') \<Rightarrow> (Returned, w')
      | (Continue, w') \<Rightarrow> chat_loop env model temperature max_tokens rest w'
      | (Raised x, w') \<Rightarrow> (Uncaught x, w'))"

definition start :: "'f world" where
  "start = \<lparr>transcript = [], sent = [], console = []\<rparr>"

text \<open>\<open>chat\<close>: the banner is printed first; \<open>history\<close> is made after it.\<close>

definition chat :: "'f env \<Rightarrow> string \<Rightarrow> 'f \<Rightarrow> int \<Rightarrow> string list \<Rightarrow> ending \<times> 'f world" where
  "chat env model temperature max_tokens lines =
     (case console_print env (Banner model) start of
        Inl x \<Rightarrow> (Uncaught x, start)
      | Inr w \<Rightarrow>
          chat_loop env model temperature max_tokens lines
            (w\<lparr>transcript := [\<lparr>m_role = ''system'', m_content = SYSTEM_PROMPT\<rparr>]\<rparr>))"

text \<open>
  \<open>ask\<close>: the error is printed inside the handler, before \<open>typer.Exit(code=1)\<close> is
  raised; the answer is printed after the \<open>try\<close>.
\<close>

definition ask :: "'f env \<Rightarrow> string \<Rightarrow> string \<Rightarrow> 'f \<Rightarrow> int \<Rightarrow> ending \<times> 'f world" where
  "ask env question model temperature max_tokens =
     (let w = start\<lparr>transcript := [\<lparr>m_role = ''system'', m_content = SYSTEM_PROMPT\<rparr>,
                                    \<lparr>m_role = ''user'', m_content = question\<rparr>]\<rparr>
      in case chat_completion_ollama env model (transcript w) temperature max_tokens
                (DEFAULT_OLLAMA_URL env) w of
           (Inl e, w') \<Rightarrow>
             (case console_print env (ErrorLine e) w' of
                Inl x \<Rightarrow> (Uncaught x, w')
              | Inr w'' \<Rightarrow> (Exit 1, w''))
         | (Inr answer, w') \<Rightarrow>
             (case console_print env (AnswerLine answer) w' of
                Inl x \<Rightarrow> (Uncaught x, w')
              | Inr w'' \<Rightarrow> (Returned, w'')))"

section \<open>The requests on the wire\<close>

text \<open>
  The HTTP \<open>POST\<close> requests that a sequence of calls of \<open>requests.post\<close> puts on the
  wire, in order: each call adds what \<^const>\<open>wire\<close> gives for it after the calls before.
\<close>

fun issued_after ::
  "'f env \<Rightarrow> 'f request list \<Rightarrow> 'f request list \<Rightarrow> (string \<times> 'f payload) list" where
  "issued_after env before [] = []"
| "issued_after env before (r # rs) = wire env before r @ issued_after env (before @ [r]) rs"

definition issued :: "'f env \<Rightarrow> 'f request list \<Rightarrow> (string \<times> 'f payload) list" where
  "issued env calls = issued_after env [] calls"

section \<open>The transcript invariant and example surroundings\<close>

text \<open>
  A transcript is seeded when it starts with the system message and holds no other
  message of role \<open>system\<close>.
\<close>

definition system_message :: message where
  "system_message = \<lparr>m_role = ''system'', m_content = SYSTEM_PROMPT\<rparr>"

definition seeded :: "message list \<Rightarrow> bool" where
  "seeded ms =
     (ms \<noteq> [] \<and> hd ms = system_message \<and>
      length (filter (\<lambda>m. m_role m = ''system'') ms) = 1)"

text \<open>
  Surroundings for the examples: no \<open>OLLAMA_URL\<close> in the environment and a server that
  gives the same result to every call.  \<open>repr\<close> is given on \<open>None\<close>, \<open>True\<close> and \<open>False\<close>;
  on other values, on the markup that \<^const>\<open>markup_raises\<close> leaves open and on the
  wire these examples say nothing.
\<close>

definition plain_repr :: "'f json \<Rightarrow> string" where
  "plain_repr v =
     (case v of
        JNull \<Rightarrow> ''None''
      | JBool b \<Rightarrow> (if b then ''True'' else ''False'')
      | _ \<Rightarrow> undefined)"

definition fixed_server :: "'f post_result \<Rightarrow> 'f env" where
  "fixed_server res =
     \<lparr>environ = (\<lambda>_. None), post = (\<lambda>_ _. res), repr = plain_repr,
      markup_error = undefined, wire = undefined\<rparr>"

definition http_response :: "nat \<Rightarrow> string \<Rightarrow> 'f json option \<Rightarrow> 'f post_result" where
  "http_response code phrase body =
     Response \<lparr>status_code = code, reason = phrase,
               resp_url = ''http://localhost:11434/api/chat'', resp_json = body\<rparr>"

text \<open>
  A Python \<open>float\<close> is a number, \<open>nan\<close>, \<open>inf\<close> or \<open>-inf\<close>.  \<open>requests.post\<close> encodes the
  \<open>json\<close> argument with \<open>allow_nan=False\<close> before anything is sent: for a float that is
  not a number the encoder raises \<open>ValueError\<close>, and the call raises \<open>InvalidJSONError\<close>,
  a \<open>RequestException\<close> with the same message (here the one of Python 3.11), without any
  request on the wire.  \<open>json_checking_client\<close> is the library in front of a server that
  sends no redirect and answers every request with the same response: one \<open>POST\<close> with
  the payload as its body for a payload that can be encoded, none for one that cannot.
\<close>

datatype pyfloat =
    Finite real
  | NaN
  | PosInf
  | NegInf

definition json_compliant :: "pyfloat payload \<Rightarrow> bool" where
  "json_compliant p = (case o_temperature (p_options p) of Finite _ \<Rightarrow> True | _ \<Rightarrow> False)"

definition json_checking_client :: "pyfloat response \<Rightarrow> pyfloat env" where
  "json_checking_client resp =
     \<lparr>environ = (\<lambda>_. None),
      post = (\<lambda>_ req. if json_compliant (r_json req) then Response resp
                       else RequestException ''Out of range float values are not JSON compliant''),
      repr = plain_repr,
      markup_error = undefined,
      wire = (\<lambda>_ req. if json_compliant (r_json req) then [(r_url req, r_json req)] else [])\<rparr>"

section \<open>Facts about the text operations\<close>

text \<open>
  Lower-casing reaches a small ASCII letter only from that letter or its capital, so
  the strings that lower-case to \<open>exit\<close> and \<open>quit\<close> are their spellings in any mix of
  upper and lower case.
\<close>

lemma of_char_lower_char:
  "(of_char (lower_char c) :: nat) =
     (if (65 \<le> (of_char c :: nat) \<and> (of_char c :: nat) \<le> 90) \<or>
         (192 \<le> (of_char c :: nat) \<and> (of_char c :: nat) \<le> 222 \<and> (of_char c :: nat) \<noteq> 215)
      then of_char c + 32 else of_char c)"
  by (simp add: lower_char_def Let_def of_char_of [where ?'a = nat] take_bit_eq_mod)

lemma lower_char_ascii_letter:
  assumes "97 \<le> (of_char x :: nat)" and "(of_char x :: nat) \<le> 122"
  shows "lower_char c = x \<longleftrightarrow> (of_char c :: nat) = of_char x \<or> (of_char c :: nat) + 32 = of_char x"
proof -
  have "lower_char c = x \<longleftrightarrow> (of_char (lower_char c) :: nat) = of_char x"
    by (simp only: of_char_eq_iff)
  also have "\<dots> \<longleftrightarrow> (of_char c :: nat) = of_char x \<or> (of_char c :: nat) + 32 = of_char x"
    using assms unfolding of_char_lower_char by auto
  finally show ?thesis .
qed

lemma lower_char_eq_iff:
  assumes "97 \<le> (of_char x :: nat)" and "(of_char x :: nat) \<le> 122"
  shows "lower_char c = x \<longleftrightarrow> c = x \<or> c = char_of ((of_char x :: nat) - 32)"
proof -
  have upper: "(of_char c :: nat) + 32 = of_char x \<longleftrightarrow> c = char_of ((of_char x :: nat) - 32)"
  proof
    assume "(of_char c :: nat) + 32 = of_char x"
    then have "(of_char c :: nat) = of_char x - 32"
      by simp
    then have "char_of (of_char c :: nat) = char_of ((of_char x :: nat) - 32)"
      by simp
    then show "c = char_of ((of_char x :: nat) - 32)"
      by simp
  next
    assume "c = char_of ((of_char x :: nat) - 32)"
    then have "(of_char c :: nat) = ((of_char x :: nat) - 32) mod 256"
      by (simp add: of_char_of [where ?'a = nat] take_bit_eq_mod)
    then show "(of_char c :: nat) + 32 = of_char x"
      using assms by simp
  qed
  have "(of_char c :: nat) = of_char x \<longleftrightarrow> c = x"
    by (simp only: of_char_eq_iff)
  with upper show ?thesis
    using lower_char_ascii_letter [OF assms, of c] by simp
qed

lemma map4_iff:
  "map f q = [w, x, y, z] \<longleftrightarrow>
     (\<exists>a b c d. q = [a, b, c, d] \<and> f a = w \<and> f b = x \<and> f c = y \<and> f d = z)"
  by (auto simp: map_eq_Cons_conv)

lemma lower_exit_iff:
  "lower q = ''exit'' \<longleftrightarrow>
     (\<exists>a b c d. q = [a, b, c, d] \<and> a \<in> {CHR ''e'', CHR ''E''} \<and> b \<in> {CHR ''x'', CHR ''X''} \<and>
        c \<in> {CHR ''i'', CHR ''I''} \<and> d \<in> {CHR ''t'', CHR ''T''})"
proof -
  have e: "lower_char a = CHR ''e'' \<longleftrightarrow> a \<in> {CHR ''e'', CHR ''E''}" for a
    using lower_char_eq_iff [of "CHR ''e''" a] by (simp add: char_of_def bit_Suc_0_iff)
  have x: "lower_char a = CHR ''x'' \<longleftrightarrow> a \<in> {CHR ''x'', CHR ''X''}" for a
    using lower_char_eq_iff [of "CHR ''x''" a] by (simp add: char_of_def bit_Suc_0_iff)
  have i: "lower_char a = CHR ''i'' \<longleftrightarrow> a \<in> {CHR ''i'', CHR ''I''}" for a
    using lower_char_eq_iff [of "CHR ''i''" a] by (simp add: char_of_def bit_Suc_0_iff)
  have t: "lower_char a = CHR ''t'' \<longleftrightarrow> a \<in> {CHR ''t'', CHR ''T''}" for a
    using lower_char_eq_iff [of "CHR ''t''" a] by (simp add: char_of_def bit_Suc_0_iff)
  show ?thesis
    unfolding lower_def map4_iff e x i t ..
qed

lemma lower_quit_iff:
  "lower q = ''quit'' \<longleftrightarrow>
     (\<exists>a b c d. q = [a, b, c, d] \<and> a \<in> {CHR ''q'', CHR ''Q''} \<and> b \<in> {CHR ''u'', CHR ''U''} \<and>
        c \<in> {CHR ''i'', CHR ''I''} \<and> d \<in> {CHR ''t'', CHR ''T''})"
proof -
  have q: "lower_char a = CHR ''q'' \<longleftrightarrow> a \<in> {CHR ''q'', CHR ''Q''}" for a
    using lower_char_eq_iff [of "CHR ''q''" a] by (simp add: char_of_def bit_Suc_0_iff)
  have u: "lower_char a = CHR ''u'' \<longleftrightarrow> a \<in> {CHR ''u'', CHR ''U''}" for a
    using lower_char_eq_iff [of "CHR ''u''" a] by (simp add: char_of_def bit_Suc_0_iff)
  have i: "lower_char a = CHR ''i'' \<longleftrightarrow> a \<in> {CHR ''i'', CHR ''I''}" for a
    using lower_char_eq_iff [of "CHR ''i''" a] by (simp add: char_of_def bit_Suc_0_iff)
  have t: "lower_char a = CHR ''t'' \<longleftrightarrow> a \<in> {CHR ''t'', CHR ''T''}" for a
    using lower_char_eq_iff [of "CHR ''t''" a] by (simp add: char_of_def bit_Suc_0_iff)
  show ?thesis
    unfolding lower_def map4_iff q u i t ..
qed

text \<open>
  \<open>strip\<close> cuts a run of whitespace off each end and nothing else: what is left neither
  starts nor ends with whitespace.
\<close>

lemma lstrip_splits:
  "dropWhile isspace s = strip s @ rev (takeWhile isspace (rev (dropWhile isspace s)))"
proof -
  let ?t = "dropWhile isspace s"
  have "rev (takeWhile isspace (rev ?t) @ dropWhile isspace (rev ?t)) = rev (rev ?t)"
    by (simp only: takeWhile_dropWhile_id)
  then have "rev (dropWhile isspace (rev ?t)) @ rev (takeWhile isspace (rev ?t)) = ?t"
    by (simp only: rev_append rev_rev_ident)
  then show ?thesis
    by (simp only: strip_def lstrip_def rstrip_def)
qed

lemma strip_splits:
  "s = takeWhile isspace s @ strip s @ rev (takeWhile isspace (rev (dropWhile isspace s)))"
proof -
  have "s = takeWhile isspace s @ dropWhile isspace s"
    by simp
  then show ?thesis
    using lstrip_splits [of s] by simp
qed

lemma strip_ends:
  assumes "strip s \<noteq> []"
  shows "\<not> isspace (hd (strip s))" and "\<not> isspace (last (strip s))"
proof -
  let ?t = "dropWhile isspace s"
  have nonempty: "dropWhile isspace (rev ?t) \<noteq> []"
    using assms by (simp add: strip_def lstrip_def rstrip_def)
  then have "\<not> isspace (hd (dropWhile isspace (rev ?t)))"
    by (rule hd_dropWhile)
  then show "\<not> isspace (last (strip s))"
    using nonempty by (simp add: strip_def lstrip_def rstrip_def last_rev)
  have "?t \<noteq> []"
    using nonempty by (cases "?t = []") simp_all
  then have first: "\<not> isspace (hd ?t)"
    by (rule hd_dropWhile)
  have "hd ?t = hd (strip s @ rev (takeWhile isspace (rev ?t)))"
    using lstrip_splits [of s] by simp
  also have "\<dots> = hd (strip s)"
    using assms by simp
  finally show "\<not> isspace (hd (strip s))"
    using first by simp
qed

section \<open>The answer and the errors of the bridge\<close>

lemma cco_snd:
  "snd (chat_completion_ollama env model messages temperature max_tokens base_url w) =
     w\<lparr>sent := sent w @ [chat_request model messages temperature max_tokens base_url]\<rparr>"
  by (simp add: chat_completion_ollama_def Let_def split: post_result.split option.split)

lemma cco_exception:
  "post env (sent w) (chat_request model messages temperature max_tokens base_url) = RequestException c
   \<Longrightarrow> fst (chat_completion_ollama env model messages temperature max_tokens base_url w) =
         Inl (RuntimeError (''Ollama request failed: '' @ c))"
  by (simp add: chat_completion_ollama_def Let_def)

lemma cco_status:
  "post env (sent w) (chat_request model messages temperature max_tokens base_url) = Response r
   \<Longrightarrow> raise_for_status r = Some c
   \<Longrightarrow> fst (chat_completion_ollama env model messages temperature max_tokens base_url w) =
         Inl (RuntimeError (''Ollama request failed: '' @ c))"
  by (simp add: chat_completion_ollama_def Let_def)

lemma cco_body:
  "post env (sent w) (chat_request model messages temperature max_tokens base_url) = Response r
   \<Longrightarrow> raise_for_status r = None
   \<Longrightarrow> fst (chat_completion_ollama env model messages temperature max_tokens base_url w) =
         (case resp_json r of None \<Rightarrow> Inl JSONDecodeError | Some data \<Rightarrow> extract_answer env data)"
  by (simp add: chat_completion_ollama_def Let_def split: option.split)

lemma raise_for_status_None: "raise_for_status r = None \<longleftrightarrow> \<not> (400 \<le> status_code r \<and> status_code r < 600)"
  by (auto simp: raise_for_status_def)

lemma extract_content:
  "map_of kv ''message'' = Some (JObject mv) \<Longrightarrow> map_of mv ''content'' = Some c
   \<Longrightarrow> extract_answer env (JObject kv) = py_strip c"
  by (simp add: extract_answer_def py_in_def py_getitem_def)

lemma extract_fallback:
  "(\<forall>m. map_of kv ''message'' = Some m \<longrightarrow> py_in ''content'' m = Inr False)
   \<Longrightarrow> extract_answer env (JObject kv) =
         (case map_of kv ''response'' of
            None \<Rightarrow> Inl (RuntimeError ''Unexpected Ollama response schema'')
          | Some v \<Rightarrow> Inr (strip (py_str env v)))"
  by (cases "map_of kv ''message''")
     (auto simp: extract_answer_def py_in_def py_getitem_def split: option.split)

text \<open>
  C1, as the code has it.  For a response that \<open>raise_for_status\<close> accepts and whose
  body parses to a JSON object: when \<open>message\<close> is an object whose \<open>content\<close> is a string,
  the answer is that string stripped, whether or not \<open>response\<close> is there as well; when
  \<open>message\<close> is absent, or the test \<open>"content" in data["message"]\<close> is false (an object
  without the key, a list without the element, a string without the substring), the
  answer is \<open>str\<close> of the field \<open>response\<close> stripped if the body has one, and the call
  raises \<open>RuntimeError("Unexpected Ollama response schema")\<close> if it has none.
\<close>

theorem extract_answer_priority:
  assumes "post env (sent w) (chat_request model messages temperature max_tokens base_url) = Response r"
    and "raise_for_status r = None"
    and "resp_json r = Some (JObject kv)"
  shows
    "(map_of kv ''message'' = Some (JObject mv) \<and> map_of mv ''content'' = Some (JString c) \<longrightarrow>
        fst (chat_completion_ollama env model messages temperature max_tokens base_url w) =
          Inr (strip c)) \<and>
     ((\<forall>m. map_of kv ''message'' = Some m \<longrightarrow> py_in ''content'' m = Inr False) \<and>
      map_of kv ''response'' = Some v \<longrightarrow>
        fst (chat_completion_ollama env model messages temperature max_tokens base_url w) =
          Inr (strip (py_str env v))) \<and>
     ((\<forall>m. map_of kv ''message'' = Some m \<longrightarrow> py_in ''content'' m = Inr False) \<and>
      map_of kv ''response'' = None \<longrightarrow>
        fst (chat_completion_ollama env model messages temperature max_tokens base_url w) =
          Inl (RuntimeError ''Unexpected Ollama response schema''))"
proof -
  have body: "fst (chat_completion_ollama env model messages temperature max_tokens base_url w) =
      extract_answer env (JObject kv)"
    using cco_body [OF assms(1) assms(2)] assms(3) by simp
  show ?thesis
    unfolding body
    by (auto simp: extract_content extract_fallback py_strip_def)
qed

text \<open>
  The three cases at concrete bodies: both shapes present, only \<open>response\<close>, neither.
\<close>

theorem extract_answer_priority_witness:
  "fst (chat_completion_ollama
         (fixed_server (http_response 200 ''OK''
            (Some (JObject [(''message'', JObject [(''role'', JString ''assistant''),
                                                   (''content'', JString ''  An index fund tracks an index. '')]),
                            (''response'', JString ''other'')]))))
         ''qwen2.5:7b-instruct'' [system_message] (0.4::real) 512 ''http://localhost:11434'' start) =
     Inr ''An index fund tracks an index.'' \<and>
   fst (chat_completion_ollama
         (fixed_server (http_response 200 ''OK'' (Some (JObject [(''response'', JString '' Y '')]))))
         ''qwen2.5:7b-instruct'' [system_message] (0.4::real) 512 ''http://localhost:11434'' start) =
     Inr ''Y'' \<and>
   fst (chat_completion_ollama
         (fixed_server (http_response 200 ''OK'' (Some (JObject [(''foo'', JString ''bar'')]))))
         ''qwen2.5:7b-instruct'' [system_message] (0.4::real) 512 ''http://localhost:11434'' start) =
     Inl (RuntimeError ''Unexpected Ollama response schema'')"
proof -
  have ok: "raise_for_status \<lparr>status_code = 200, reason = ''OK'',
              resp_url = ''http://localhost:11434/api/chat'', resp_json = Some b\<rparr> = None"
    for b :: "real json"
    by (simp add: raise_for_status_def)
  have srv: "post (fixed_server (http_response 200 ''OK'' (Some b))) l q =
      Response \<lparr>status_code = 200, reason = ''OK'',
                resp_url = ''http://localhost:11434/api/chat'', resp_json = Some b\<rparr>"
    for b :: "real json" and l q
    by (simp add: fixed_server_def http_response_def)
  have tidy: "strip ''  An index fund tracks an index. '' = ''An index fund tracks an index.''"
    "strip '' Y '' = ''Y''"
    by (simp_all add: strip_def lstrip_def rstrip_def isspace_def)
  note inst = extract_answer_priority [OF srv ok]
  show ?thesis
    using inst [where kv = "[(''message'', JObject [(''role'', JString ''assistant''),
                                (''content'', JString ''  An index fund tracks an index. '')]),
                             (''response'', JString ''other'')]"
                  and mv = "[(''role'', JString ''assistant''),
                             (''content'', JString ''  An index fund tracks an index. '')]"
                  and c = "''  An index fund tracks an index. ''"]
          inst [where kv = "[(''response'', JString '' Y '')]" and v = "JString '' Y ''"]
          inst [where kv = "[(''foo'', JString ''bar'')]"]
    by (simp add: tidy py_str_def)
qed

text \<open>
  C1 as stated fails on bodies that are not of the expected types.  For the body
  \<open>{"message": null, "response": " hi "}\<close> there is no sub-field \<open>content\<close> and there is a
  field \<open>response\<close>, yet the call does not return \<open>hi\<close>: the test \<open>"content" in None\<close>
  raises \<open>TypeError\<close>.  For the body \<open>{"message": {"role": "assistant", "content": 5}}\<close>
  the sub-field is there, yet nothing is returned: \<open>.strip()\<close> on an \<open>int\<close> raises
  \<open>AttributeError\<close>.
\<close>

theorem extract_answer_counterexample:
  "fst (chat_completion_ollama
         (fixed_server (http_response 200 ''OK''
            (Some (JObject [(''message'', JNull), (''response'', JString '' hi '')]))))
         ''qwen2.5:7b-instruct'' [system_message] (0.4::real) 512 ''http://localhost:11434'' start) =
     Inl TypeError \<and>
   fst (chat_completion_ollama
         (fixed_server (http_response 200 ''OK''
            (Some (JObject [(''message'', JObject [(''role'', JString ''assistant''),
                                                   (''content'', JInt 5)])]))))
         ''qwen2.5:7b-instruct'' [system_message] (0.4::real) 512 ''http://localhost:11434'' start) =
     Inl AttributeError"
  by (simp add: chat_completion_ollama_def fixed_server_def http_response_def
        raise_for_status_def extract_answer_def py_in_def py_getitem_def py_strip_def)

lemma failed_not_schema:
  "''Ollama request failed: '' @ c \<noteq> ''Unexpected Ollama response schema''"
  by simp

text \<open>
  C2, as the code has it.  A \<open>RequestException\<close> raised by \<open>requests.post\<close> (connection
  error, timeout) becomes \<open>RuntimeError("Ollama request failed: " + str(e))\<close>; so does the
  \<open>HTTPError\<close> of \<open>raise_for_status\<close>, which is raised for the statuses 400 to 599, with
  its message as the cause.  For any other status, a JSON object without \<open>response\<close> in
  which \<open>message\<close> is absent, or is an object, a list or a string that does not hold
  \<open>content\<close>, raises \<open>RuntimeError("Unexpected Ollama response schema")\<close>.  The two errors
  differ, whatever the cause is.  No failure is turned into an answer: the call returns
  an answer only when the server answered with a status outside 400 to 599 and a JSON
  body from which the extraction gives that answer.
\<close>

theorem bridge_error_kinds:
  "(post env (sent w) (chat_request model messages temperature max_tokens base_url) =
      RequestException c \<longrightarrow>
    fst (chat_completion_ollama env model messages temperature max_tokens base_url w) =
      Inl (RuntimeError (''Ollama request failed: '' @ c))) \<and>
   (post env (sent w) (chat_request model messages temperature max_tokens base_url) =
      Response r \<and> 400 \<le> status_code r \<and> status_code r < 600 \<longrightarrow>
    fst (chat_completion_ollama env model messages temperature max_tokens base_url w) =
      Inl (RuntimeError (''Ollama request failed: '' @ str_nat (status_code r) @
             (if status_code r < 500 then '' Client Error: '' else '' Server Error: '') @
             reason r @ '' for url: '' @ resp_url r))) \<and>
   (post env (sent w) (chat_request model messages temperature max_tokens base_url) =
      Response r \<and> \<not> (400 \<le> status_code r \<and> status_code r < 600) \<and>
    resp_json r = Some (JObject kv) \<and>
    (\<forall>m. map_of kv ''message'' = Some m \<longrightarrow> py_in ''content'' m = Inr False) \<and>
    map_of kv ''response'' = None \<longrightarrow>
    fst (chat_completion_ollama env model messages temperature max_tokens base_url w) =
      Inl (RuntimeError ''Unexpected Ollama response schema'')) \<and>
   RuntimeError (''Ollama request failed: '' @ cause) \<noteq>
     RuntimeError ''Unexpected Ollama response schema'' \<and>
   (fst (chat_completion_ollama env model messages temperature max_tokens base_url w) =
      Inr answer \<longrightarrow>
    (\<exists>r' data.
       post env (sent w) (chat_request model messages temperature max_tokens base_url) =
         Response r' \<and>
       \<not> (400 \<le> status_code r' \<and> status_code r' < 600) \<and>
       resp_json r' = Some data \<and> extract_answer env data = Inr answer))"
proof (intro conjI impI)
  assume "post env (sent w) (chat_request model messages temperature max_tokens base_url) =
      RequestException c"
  then show "fst (chat_completion_ollama env model messages temperature max_tokens base_url w) =
      Inl (RuntimeError (''Ollama request failed: '' @ c))"
    by (rule cco_exception)
next
  assume a: "post env (sent w) (chat_request model messages temperature max_tokens base_url) =
      Response r \<and> 400 \<le> status_code r \<and> status_code r < 600"
  then have "raise_for_status r = Some (str_nat (status_code r) @
             (if status_code r < 500 then '' Client Error: '' else '' Server Error: '') @
             reason r @ '' for url: '' @ resp_url r)"
    by (simp add: raise_for_status_def)
  with a show "fst (chat_completion_ollama env model messages temperature max_tokens base_url w) =
      Inl (RuntimeError (''Ollama request failed: '' @ str_nat (status_code r) @
             (if status_code r < 500 then '' Client Error: '' else '' Server Error: '') @
             reason r @ '' for url: '' @ resp_url r))"
    using cco_status [of env w model messages temperature max_tokens base_url r]
    by (simp del: append.simps)
next
  assume a: "post env (sent w) (chat_request model messages temperature max_tokens base_url) =
      Response r \<and> \<not> (400 \<le> status_code r \<and> status_code r < 600) \<and>
    resp_json r = Some (JObject kv) \<and>
    (\<forall>m. map_of kv ''message'' = Some m \<longrightarrow> py_in ''content'' m = Inr False) \<and>
    map_of kv ''response'' = None"
  then have "raise_for_status r = None"
    by (simp add: raise_for_status_None)
  with a have "fst (chat_completion_ollama env model messages temperature max_tokens base_url w) =
      extract_answer env (JObject kv)"
    using cco_body [of env w model messages temperature max_tokens base_url r] by simp
  with a show "fst (chat_completion_ollama env model messages temperature max_tokens base_url w) =
      Inl (RuntimeError ''Unexpected Ollama response schema'')"
    by (simp add: extract_fallback)
next
  show "RuntimeError (''Ollama request failed: '' @ cause) \<noteq>
     RuntimeError ''Unexpected Ollama response schema''"
    by simp
next
  assume a: "fst (chat_completion_ollama env model messages temperature max_tokens base_url w) =
      Inr answer"
  then show "\<exists>r' data.
       post env (sent w) (chat_request model messages temperature max_tokens base_url) =
         Response r' \<and>
       \<not> (400 \<le> status_code r' \<and> status_code r' < 600) \<and>
       resp_json r' = Some data \<and> extract_answer env data = Inr answer"
    by (auto simp: chat_completion_ollama_def Let_def raise_for_status_None
             split: post_result.splits option.splits)
qed

text \<open>
  C8.  \<open>chat_completion_ollama\<close> changes nothing but the record of calls to
  \<open>requests.post\<close>: the transcript and the console are after the call what they were
  before it, on every path, also when the messages passed are the transcript itself.
\<close>

theorem bridge_frame:
  "snd (chat_completion_ollama env model messages temperature max_tokens base_url w) =
     w\<lparr>sent := sent w @ [chat_request model messages temperature max_tokens base_url]\<rparr> \<and>
   transcript (snd (chat_completion_ollama env model messages temperature max_tokens base_url w)) =
     transcript w \<and>
   console (snd (chat_completion_ollama env model messages temperature max_tokens base_url w)) =
     console w \<and>
   transcript (snd (chat_completion_ollama env model (transcript w) temperature max_tokens
                      base_url w)) = transcript w"
  by (simp add: cco_snd)

text \<open>
  C9.  For a response that \<open>raise_for_status\<close> accepts and whose body is a JSON object:
  when \<open>message\<close> is an object whose \<open>content\<close> is not a string, \<open>.strip()\<close> raises
  \<open>AttributeError\<close>, which leaves the function as it is (not the schema error); when
  there is no \<open>message\<close>, a \<open>response\<close> that is not a string is turned into text by
  \<open>str\<close>, that is its \<open>repr\<close>, and stripped: the call returns.
\<close>

theorem content_must_be_text:
  assumes "post env (sent w) (chat_request model messages temperature max_tokens base_url) = Response r"
    and "raise_for_status r = None"
    and "resp_json r = Some (JObject kv)"
  shows
    "(map_of kv ''message'' = Some (JObject mv) \<and> map_of mv ''content'' = Some c \<and>
      (\<forall>s. c \<noteq> JString s) \<longrightarrow>
        fst (chat_completion_ollama env model messages temperature max_tokens base_url w) =
          Inl AttributeError) \<and>
     (map_of kv ''message'' = None \<and> map_of kv ''response'' = Some v \<and>
      (\<forall>s. v \<noteq> JString s) \<longrightarrow>
        fst (chat_completion_ollama env model messages temperature max_tokens base_url w) =
          Inr (strip (repr env v)))"
proof -
  have body: "fst (chat_completion_ollama env model messages temperature max_tokens base_url w) =
      extract_answer env (JObject kv)"
    using cco_body [OF assms(1) assms(2)] assms(3) by simp
  have "py_strip c = Inl AttributeError" if "\<forall>s. c \<noteq> JString s"
    using that by (cases c) (simp_all add: py_strip_def)
  moreover have "py_str env v = repr env v" if "\<forall>s. v \<noteq> JString s"
    using that by (cases v) (simp_all add: py_str_def)
  ultimately show ?thesis
    unfolding body
    by (auto simp: extract_content extract_fallback)
qed

lemma fixed_server_post: "post (fixed_server res) l q = res"
  by (simp add: fixed_server_def)

lemma fixed_server_repr: "repr (fixed_server res) = plain_repr"
  by (simp add: fixed_server_def)

lemma raise_for_status_http_response:
  "http_response code phrase body = Response r \<Longrightarrow>
   raise_for_status r = None \<longleftrightarrow> \<not> (400 \<le> code \<and> code < 600)"
  by (auto simp: http_response_def raise_for_status_None)

text \<open>
  The error cases at concrete servers: a timeout, a 404, a body of neither shape; and a
  server whose answer is returned.
\<close>

theorem bridge_error_kinds_witness:
  "fst (chat_completion_ollama (fixed_server (RequestException ''timed out''))
         ''qwen2.5:7b-instruct'' [system_message] (0.4::real) 512 ''http://localhost:11434'' start) =
     Inl (RuntimeError ''Ollama request failed: timed out'') \<and>
   fst (chat_completion_ollama (fixed_server (http_response 404 ''Not Found'' None))
         ''qwen2.5:7b-instruct'' [system_message] (0.4::real) 512 ''http://localhost:11434'' start) =
     Inl (RuntimeError
           ''Ollama request failed: 404 Client Error: Not Found for url: http://localhost:11434/api/chat'') \<and>
   fst (chat_completion_ollama
         (fixed_server (http_response 200 ''OK'' (Some (JObject [(''foo'', JString ''bar'')]))))
         ''qwen2.5:7b-instruct'' [system_message] (0.4::real) 512 ''http://localhost:11434'' start) =
     Inl (RuntimeError ''Unexpected Ollama response schema'') \<and>
   fst (chat_completion_ollama
         (fixed_server (http_response 200 ''OK'' (Some (JObject [(''response'', JString '' Y '')]))))
         ''qwen2.5:7b-instruct'' [system_message] (0.4::real) 512 ''http://localhost:11434'' start) =
     Inr ''Y''"
proof -
  have digits: "str_nat 404 = ''404''"
    by (simp add: str_nat.simps char_of_def bit_Suc_0_iff)
  have tidy: "strip '' Y '' = ''Y''"
    by (simp add: strip_def lstrip_def rstrip_def isspace_def)
  have answered: "fst (chat_completion_ollama
         (fixed_server (http_response 200 ''OK'' (Some (JObject [(''response'', JString '' Y '')]))))
         ''qwen2.5:7b-instruct'' [system_message] (0.4::real) 512 ''http://localhost:11434'' start) =
     Inr ''Y''"
    by (simp add: chat_completion_ollama_def fixed_server_def http_response_def
          raise_for_status_def extract_answer_def py_in_def py_getitem_def py_str_def tidy)
  show ?thesis
    using bridge_error_kinds
            [where env = "fixed_server (RequestException ''timed out'')" and c = "''timed out''"
               and w = start and model = "''qwen2.5:7b-instruct''" and messages = "[system_message]"
               and temperature = "0.4::real" and max_tokens = 512
               and base_url = "''http://localhost:11434''"]
          bridge_error_kinds
            [where env = "fixed_server (http_response 404 ''Not Found'' None)"
               and r = "\<lparr>status_code = 404, reason = ''Not Found'',
                         resp_url = ''http://localhost:11434/api/chat'', resp_json = None\<rparr>"
               and w = start and model = "''qwen2.5:7b-instruct''" and messages = "[system_message]"
               and temperature = "0.4::real" and max_tokens = 512
               and base_url = "''http://localhost:11434''"]
          bridge_error_kinds
            [where env = "fixed_server (http_response 200 ''OK''
                            (Some (JObject [(''foo'', JString ''bar'')])))"
               and r = "\<lparr>status_code = 200, reason = ''OK'',
                         resp_url = ''http://localhost:11434/api/chat'',
                         resp_json = Some (JObject [(''foo'', JString ''bar'')])\<rparr>"
               and kv = "[(''foo'', JString ''bar'')]"
               and w = start and model = "''qwen2.5:7b-instruct''" and messages = "[system_message]"
               and temperature = "0.4::real" and max_tokens = 512
               and base_url = "''http://localhost:11434''"]
          answered
    by (simp add: fixed_server_post http_response_def digits)
qed

text \<open>
  C2 as stated fails for a status that is neither 2xx nor 400 to 599: for
  \<open>304 Not Modified\<close> with a body that is not JSON, \<open>raise_for_status\<close> returns and
  \<open>resp.json()\<close>, outside the \<open>try\<close>, raises a \<open>JSONDecodeError\<close>: neither of the two
  \<open>RuntimeError\<close>s.
\<close>

theorem not_modified_counterexample:
  "fst (chat_completion_ollama (fixed_server (http_response 304 ''Not Modified'' None))
         ''qwen2.5:7b-instruct'' [system_message] (0.4::real) 512 ''http://localhost:11434'' start) =
     Inl JSONDecodeError"
  by (simp add: chat_completion_ollama_def fixed_server_def http_response_def raise_for_status_def)

text \<open>
  Both cases at concrete bodies: \<open>{"message": {"role": "assistant", "content": 5}}\<close> and
  \<open>{"response": true}\<close>.
\<close>

theorem content_must_be_text_witness:
  "fst (chat_completion_ollama
         (fixed_server (http_response 200 ''OK''
            (Some (JObject [(''message'', JObject [(''role'', JString ''assistant''),
                                                   (''content'', JInt 5)])]))))
         ''qwen2.5:7b-instruct'' [system_message] (0.4::real) 512 ''http://localhost:11434'' start) =
     Inl AttributeError \<and>
   fst (chat_completion_ollama
         (fixed_server (http_response 200 ''OK'' (Some (JObject [(''response'', JBool True)]))))
         ''qwen2.5:7b-instruct'' [system_message] (0.4::real) 512 ''http://localhost:11434'' start) =
     Inr ''True''"
proof -
  have ok: "raise_for_status \<lparr>status_code = 200, reason = ''OK'',
              resp_url = ''http://localhost:11434/api/chat'', resp_json = Some b\<rparr> = None"
    for b :: "real json"
    by (simp add: raise_for_status_def)
  have srv: "post (fixed_server (http_response 200 ''OK'' (Some b))) l q =
      Response \<lparr>status_code = 200, reason = ''OK'',
                resp_url = ''http://localhost:11434/api/chat'', resp_json = Some b\<rparr>"
    for b :: "real json" and l q
    by (simp add: fixed_server_def http_response_def)
  have tidy: "strip ''True'' = ''True''"
    by (simp add: strip_def lstrip_def rstrip_def isspace_def)
  note inst = content_must_be_text [OF srv ok]
  show ?thesis
    using inst [where kv = "[(''message'', JObject [(''role'', JString ''assistant''),
                                                    (''content'', JInt 5)])]"
                  and mv = "[(''role'', JString ''assistant''), (''content'', JInt 5)]"
                  and c = "JInt 5"]
          inst [where kv = "[(''response'', JBool True)]" and v = "JBool True"]
    by (simp add: fixed_server_repr plain_repr_def tidy)
qed

section \<open>The request\<close>

lemma issued_after_snoc:
  "issued_after env before (calls @ [r]) =
     issued_after env before calls @ wire env (before @ calls) r"
  by (induction calls arbitrary: before) simp_all

lemma issued_snoc: "issued env (calls @ [r]) = issued env calls @ wire env calls r"
  using issued_after_snoc [of env "[]" calls r] by (simp add: issued_def)

text \<open>
  C7, at the level of the call.  Every invocation of \<open>chat_completion_ollama\<close> makes
  exactly one call of \<open>requests.post\<close>, whatever comes of it: with the URL \<open>base_url\<close>
  followed by \<open>/api/chat\<close>, the payload
  \<open>{model, messages, stream: false, options: {temperature, num_predict: max_tokens}}\<close>
  built from the arguments unchanged, and the timeout 120.  What the invocation puts on
  the wire is what that one call puts there, and the outcome of the invocation is
  decided by what that call gives at exactly this request: a \<open>RequestException\<close> becomes
  the \<open>RuntimeError\<close> at once, with no second call, and a response goes through
  \<open>raise_for_status\<close>, \<open>resp.json()\<close> and the extraction.
\<close>

theorem bridge_makes_one_call:
  "sent (snd (chat_completion_ollama env model messages temperature max_tokens base_url w)) =
     sent w @
       [\<lparr>r_url = base_url @ ''/api/chat'',
         r_json = \<lparr>p_model = model, p_messages = messages, p_stream = False,
                   p_options = \<lparr>o_temperature = temperature, o_num_predict = max_tokens\<rparr>\<rparr>,
         r_timeout = 120\<rparr>] \<and>
   issued env
     (sent (snd (chat_completion_ollama env model messages temperature max_tokens base_url w))) =
     issued env (sent w) @
       wire env (sent w)
         \<lparr>r_url = base_url @ ''/api/chat'',
          r_json = \<lparr>p_model = model, p_messages = messages, p_stream = False,
                    p_options = \<lparr>o_temperature = temperature, o_num_predict = max_tokens\<rparr>\<rparr>,
          r_timeout = 120\<rparr> \<and>
   (post env (sent w)
       \<lparr>r_url = base_url @ ''/api/chat'',
        r_json = \<lparr>p_model = model, p_messages = messages, p_stream = False,
                  p_options = \<lparr>o_temperature = temperature, o_num_predict = max_tokens\<rparr>\<rparr>,
        r_timeout = 120\<rparr> = RequestException c \<longrightarrow>
    fst (chat_completion_ollama env model messages temperature max_tokens base_url w) =
      Inl (RuntimeError (''Ollama request failed: '' @ c))) \<and>
   (post env (sent w)
       \<lparr>r_url = base_url @ ''/api/chat'',
        r_json = \<lparr>p_model = model, p_messages = messages, p_stream = False,
                  p_options = \<lparr>o_temperature = temperature, o_num_predict = max_tokens\<rparr>\<rparr>,
        r_timeout = 120\<rparr> = Response r \<longrightarrow>
    fst (chat_completion_ollama env model messages temperature max_tokens base_url w) =
      (case raise_for_status r of
         Some c \<Rightarrow> Inl (RuntimeError (''Ollama request failed: '' @ c))
       | None \<Rightarrow>
           (case resp_json r of
              None \<Rightarrow> Inl JSONDecodeError
            | Some data \<Rightarrow> extract_answer env data)))"
proof -
  have req: "\<lparr>r_url = base_url @ ''/api/chat'',
         r_json = \<lparr>p_model = model, p_messages = messages, p_stream = False,
                   p_options = \<lparr>o_temperature = temperature, o_num_predict = max_tokens\<rparr>\<rparr>,
         r_timeout = 120\<rparr> = chat_request model messages temperature max_tokens base_url"
    by (simp add: chat_request_def)
  have log: "sent (snd (chat_completion_ollama env model messages temperature max_tokens base_url w)) =
      sent w @ [chat_request model messages temperature max_tokens base_url]"
    by (simp add: cco_snd)
  have raised: "fst (chat_completion_ollama env model messages temperature max_tokens base_url w) =
      Inl (RuntimeError (''Ollama request failed: '' @ c))"
    if "post env (sent w) (chat_request model messages temperature max_tokens base_url) =
        RequestException c"
    using that by (rule cco_exception)
  have answered: "fst (chat_completion_ollama env model messages temperature max_tokens base_url w) =
      (case raise_for_status r of
         Some c \<Rightarrow> Inl (RuntimeError (''Ollama request failed: '' @ c))
       | None \<Rightarrow>
           (case resp_json r of
              None \<Rightarrow> Inl JSONDecodeError
            | Some data \<Rightarrow> extract_answer env data))"
    if "post env (sent w) (chat_request model messages temperature max_tokens base_url) =
        Response r"
    using that by (simp add: chat_completion_ollama_def Let_def split: option.split)
  show ?thesis
    unfolding req log issued_snoc using raised answered by blast
qed

lemma json_checking_client_simps:
  "post (json_checking_client resp) calls req =
     (if json_compliant (r_json req) then Response resp
      else RequestException ''Out of range float values are not JSON compliant'')"
  "wire (json_checking_client resp) calls req =
     (if json_compliant (r_json req) then [(r_url req, r_json req)] else [])"
  "environ (json_checking_client resp) = (\<lambda>_. None)"
  by (simp_all add: json_checking_client_def)

text \<open>
  The call at a concrete client: with the temperature 0.4 one \<open>POST\<close> carries the
  payload and the answer comes back; with the temperature \<open>inf\<close> the call raises and the
  bridge raises its \<open>RuntimeError\<close>.
\<close>

theorem bridge_makes_one_call_witness:
  "sent (snd (chat_completion_ollama
          (json_checking_client
             \<lparr>status_code = 200, reason = ''OK'', resp_url = ''http://localhost:11434/api/chat'',
              resp_json = Some (JObject [(''response'', JString '' Y '')])\<rparr>)
          ''qwen2.5:7b-instruct'' [system_message] (Finite 0.4) 512 ''http://localhost:11434''
          start)) =
     [\<lparr>r_url = ''http://localhost:11434/api/chat'',
       r_json = \<lparr>p_model = ''qwen2.5:7b-instruct'', p_messages = [system_message],
                 p_stream = False,
                 p_options = \<lparr>o_temperature = Finite 0.4, o_num_predict = 512\<rparr>\<rparr>,
       r_timeout = 120\<rparr>] \<and>
   issued
     (json_checking_client
        \<lparr>status_code = 200, reason = ''OK'', resp_url = ''http://localhost:11434/api/chat'',
         resp_json = Some (JObject [(''response'', JString '' Y '')])\<rparr>)
     (sent (snd (chat_completion_ollama
          (json_checking_client
             \<lparr>status_code = 200, reason = ''OK'', resp_url = ''http://localhost:11434/api/chat'',
              resp_json = Some (JObject [(''response'', JString '' Y '')])\<rparr>)
          ''qwen2.5:7b-instruct'' [system_message] (Finite 0.4) 512 ''http://localhost:11434''
          start))) =
     [(''http://localhost:11434/api/chat'',
       \<lparr>p_model = ''qwen2.5:7b-instruct'', p_messages = [system_message], p_stream = False,
        p_options = \<lparr>o_temperature = Finite 0.4, o_num_predict = 512\<rparr>\<rparr>)] \<and>
   fst (chat_completion_ollama
          (json_checking_client
             \<lparr>status_code = 200, reason = ''OK'', resp_url = ''http://localhost:11434/api/chat'',
              resp_json = Some (JObject [(''response'', JString '' Y '')])\<rparr>)
          ''qwen2.5:7b-instruct'' [system_message] (Finite 0.4) 512 ''http://localhost:11434''
          start) = Inr ''Y'' \<and>
   fst (chat_completion_ollama
          (json_checking_client
             \<lparr>status_code = 200, reason = ''OK'', resp_url = ''http://localhost:11434/api/chat'',
              resp_json = Some (JObject [(''response'', JString '' Y '')])\<rparr>)
          ''qwen2.5:7b-instruct'' [system_message] PosInf 512 ''http://localhost:11434''
          start) =
     Inl (RuntimeError
           ''Ollama request failed: Out of range float values are not JSON compliant'')"
proof -
  let ?resp = "\<lparr>status_code = 200, reason = ''OK'',
                resp_url = ''http://localhost:11434/api/chat'',
                resp_json = Some (JObject [(''response'', JString '' Y '')])\<rparr> :: pyfloat response"
  have tidy: "strip '' Y '' = ''Y''"
    by (simp add: strip_def lstrip_def rstrip_def isspace_def)
  have answer: "extract_answer (json_checking_client ?resp) (JObject [(''response'', JString '' Y '')]) =
      Inr ''Y''"
    by (simp add: extract_answer_def py_in_def py_getitem_def py_str_def tidy)
  have accepted: "raise_for_status ?resp = None"
    by (simp add: raise_for_status_def)
  note ok = bridge_makes_one_call
              [where env = "json_checking_client ?resp" and w = start
                 and model = "''qwen2.5:7b-instruct''" and messages = "[system_message]"
                 and temperature = "Finite 0.4" and max_tokens = 512
                 and base_url = "''http://localhost:11434''" and r = ?resp]
  note bad = bridge_makes_one_call
              [where env = "json_checking_client ?resp" and w = start
                 and model = "''qwen2.5:7b-instruct''" and messages = "[system_message]"
                 and temperature = PosInf and max_tokens = 512
                 and base_url = "''http://localhost:11434''"
                 and c = "''Out of range float values are not JSON compliant''"]
  show ?thesis
    using ok bad
    by (simp add: json_checking_client_simps json_compliant_def start_def issued_def
          accepted answer)
qed

text \<open>
  C7 as stated fails for a temperature that is not a number (\<open>--temperature nan\<close>): the
  bridge makes its call, but \<open>requests\<close> refuses to encode the payload, so no HTTP
  \<open>POST\<close> is issued and the temperature is not forwarded; the bridge raises.
\<close>

theorem not_a_number_counterexample:
  "sent (snd (chat_completion_ollama
          (json_checking_client
             \<lparr>status_code = 200, reason = ''OK'', resp_url = ''http://localhost:11434/api/chat'',
              resp_json = Some (JObject [(''response'', JString '' Y '')])\<rparr>)
          ''qwen2.5:7b-instruct'' [system_message] NaN 512 ''http://localhost:11434'' start)) =
     [chat_request ''qwen2.5:7b-instruct'' [system_message] NaN 512 ''http://localhost:11434''] \<and>
   issued
     (json_checking_client
        \<lparr>status_code = 200, reason = ''OK'', resp_url = ''http://localhost:11434/api/chat'',
         resp_json = Some (JObject [(''response'', JString '' Y '')])\<rparr>)
     (sent (snd (chat_completion_ollama
          (json_checking_client
             \<lparr>status_code = 200, reason = ''OK'', resp_url = ''http://localhost:11434/api/chat'',
              resp_json = Some (JObject [(''response'', JString '' Y '')])\<rparr>)
          ''qwen2.5:7b-instruct'' [system_message] NaN 512 ''http://localhost:11434''
          start))) = [] \<and>
   fst (chat_completion_ollama
          (json_checking_client
             \<lparr>status_code = 200, reason = ''OK'', resp_url = ''http://localhost:11434/api/chat'',
              resp_json = Some (JObject [(''response'', JString '' Y '')])\<rparr>)
          ''qwen2.5:7b-instruct'' [system_message] NaN 512 ''http://localhost:11434'' start) =
     Inl (RuntimeError
           ''Ollama request failed: Out of range float values are not JSON compliant'')"
  by (simp add: chat_completion_ollama_def chat_request_def json_checking_client_simps
        json_compliant_def start_def issued_def)

section \<open>The interactive loop\<close>

lemma no_tag_renders: "find_tag False t = None \<Longrightarrow> \<not> markup_raises env t"
  by (simp add: markup_raises_def)

lemma console_print_cases:
  "console_print env p w =
     (if print_raises env p then Inl MarkupError else Inr (w\<lparr>console := console w @ [p]\<rparr>))"
  by (simp add: console_print_def)

lemma chat_turn_exit:
  "lower (strip line) = ''exit'' \<or> lower (strip line) = ''quit'' \<Longrightarrow>
   chat_turn env model temperature max_tokens line w = (Break, w)"
  by (simp add: chat_turn_def Let_def)

lemma chat_turn_failure:
  assumes "lower (strip line) \<noteq> ''exit''" and "lower (strip line) \<noteq> ''quit''"
    and "fst (chat_completion_ollama env model
                (transcript w @ [\<lparr>m_role = ''user'', m_content = strip line\<rparr>])
                temperature max_tokens (DEFAULT_OLLAMA_URL env)
                (w\<lparr>transcript := transcript w @ [\<lparr>m_role = ''user'', m_content = strip line\<rparr>]\<rparr>)) =
         Inl e"
  shows "chat_turn env model temperature max_tokens line w =
     (if print_raises env (ErrorLine e)
      then (Raised MarkupError,
            w\<lparr>transcript := transcript w @ [\<lparr>m_role = ''user'', m_content = strip line\<rparr>],
              sent := sent w @
                [chat_request model
                   (transcript w @ [\<lparr>m_role = ''user'', m_content = strip line\<rparr>])
                   temperature max_tokens (DEFAULT_OLLAMA_URL env)]\<rparr>)
      else (Continue,
            w\<lparr>transcript := transcript w @ [\<lparr>m_role = ''user'', m_content = strip line\<rparr>],
              sent := sent w @
                [chat_request model
                   (transcript w @ [\<lparr>m_role = ''user'', m_content = strip line\<rparr>])
                   temperature max_tokens (DEFAULT_OLLAMA_URL env)],
              console := console w @ [ErrorLine e]\<rparr>))"
proof -
  let ?w1 = "w\<lparr>transcript := transcript w @ [\<lparr>m_role = ''user'', m_content = strip line\<rparr>]\<rparr>"
  let ?call = "chat_completion_ollama env model
                (transcript w @ [\<lparr>m_role = ''user'', m_content = strip line\<rparr>])
                temperature max_tokens (DEFAULT_OLLAMA_URL env) ?w1"
  have "?call = (Inl e, snd ?call)"
    using assms(3) by (metis prod.collapse)
  then show ?thesis
    using assms(1,2) by (simp add: chat_turn_def Let_def cco_snd console_print_cases)
qed

lemma chat_turn_success:
  assumes "lower (strip line) \<noteq> ''exit''" and "lower (strip line) \<noteq> ''quit''"
    and "fst (chat_completion_ollama env model
                (transcript w @ [\<lparr>m_role = ''user'', m_content = strip line\<rparr>])
                temperature max_tokens (DEFAULT_OLLAMA_URL env)
                (w\<lparr>transcript := transcript w @ [\<lparr>m_role = ''user'', m_content = strip line\<rparr>]\<rparr>)) =
         Inr answer"
  shows "chat_turn env model temperature max_tokens line w =
     (if print_raises env (AnswerPanel answer)
      then (Raised MarkupError,
            w\<lparr>transcript := transcript w @ [\<lparr>m_role = ''user'', m_content = strip line\<rparr>,
                                             \<lparr>m_role = ''assistant'', m_content = answer\<rparr>],
              sent := sent w @
                [chat_request model
                   (transcript w @ [\<lparr>m_role = ''user'', m_content = strip line\<rparr>])
                   temperature max_tokens (DEFAULT_OLLAMA_URL env)]\<rparr>)
      else (Continue,
            w\<lparr>transcript := transcript w @ [\<lparr>m_role = ''user'', m_content = strip line\<rparr>,
                                             \<lparr>m_role = ''assistant'', m_content = answer\<rparr>],
              sent := sent w @
                [chat_request model
                   (transcript w @ [\<lparr>m_role = ''user'', m_content = strip line\<rparr>])
                   temperature max_tokens (DEFAULT_OLLAMA_URL env)],
              console := console w @ [AnswerPanel answer]\<rparr>))"
proof -
  let ?w1 = "w\<lparr>transcript := transcript w @ [\<lparr>m_role = ''user'', m_content = strip line\<rparr>]\<rparr>"
  let ?call = "chat_completion_ollama env model
                (transcript w @ [\<lparr>m_role = ''user'', m_content = strip line\<rparr>])
                temperature max_tokens (DEFAULT_OLLAMA_URL env) ?w1"
  have "?call = (Inr answer, snd ?call)"
    using assms(3) by (metis prod.collapse)
  then show ?thesis
    using assms(1,2) by (simp add: chat_turn_def Let_def cco_snd console_print_cases)
qed

lemma chat_turn_bridge:
  assumes "lower (strip line) \<noteq> ''exit''" and "lower (strip line) \<noteq> ''quit''"
  shows "fst (chat_turn env model temperature max_tokens line w) \<noteq> Break"
    and "fst (chat_turn env model temperature max_tokens line w) = Continue \<or>
         fst (chat_turn env model temperature max_tokens line w) = Raised MarkupError"
    and "sent (snd (chat_turn env model temperature max_tokens line w)) =
           sent w @
             [chat_request model (transcript w @ [\<lparr>m_role = ''user'', m_content = strip line\<rparr>])
                temperature max_tokens (DEFAULT_OLLAMA_URL env)]"
    and "take (Suc (length (transcript w)))
           (transcript (snd (chat_turn env model temperature max_tokens line w))) =
         transcript w @ [\<lparr>m_role = ''user'', m_content = strip line\<rparr>]"
proof -
  let ?call = "chat_completion_ollama env model
                (transcript w @ [\<lparr>m_role = ''user'', m_content = strip line\<rparr>])
                temperature max_tokens (DEFAULT_OLLAMA_URL env)
                (w\<lparr>transcript := transcript w @ [\<lparr>m_role = ''user'', m_content = strip line\<rparr>]\<rparr>)"
  show "fst (chat_turn env model temperature max_tokens line w) \<noteq> Break"
    and "fst (chat_turn env model temperature max_tokens line w) = Continue \<or>
         fst (chat_turn env model temperature max_tokens line w) = Raised MarkupError"
    and "sent (snd (chat_turn env model temperature max_tokens line w)) =
           sent w @
             [chat_request model (transcript w @ [\<lparr>m_role = ''user'', m_content = strip line\<rparr>])
                temperature max_tokens (DEFAULT_OLLAMA_URL env)]"
    and "take (Suc (length (transcript w)))
           (transcript (snd (chat_turn env model temperature max_tokens line w))) =
         transcript w @ [\<lparr>m_role = ''user'', m_content = strip line\<rparr>]"
    by (cases "fst ?call"; simp add: chat_turn_failure [OF assms] chat_turn_success [OF assms])+
qed

lemma chat_loop_step:
  "chat_loop env model temperature max_tokens (line # rest) w =
     (case fst (chat_turn env model temperature max_tokens line w) of
        Break \<Rightarrow> (Returned, snd (chat_turn env model temperature max_tokens line w))
      | Continue \<Rightarrow>
          chat_loop env model temperature max_tokens rest
            (snd (chat_turn env model temperature max_tokens line w))
      | Raised x \<Rightarrow> (Uncaught x, snd (chat_turn env model temperature max_tokens line w)))"
  by (cases "chat_turn env model temperature max_tokens line w")
     (simp split: turn_end.split)

text \<open>
  What a failed exchange does to the loop.  The user message stays the last entry of
  the transcript and no assistant message is appended.  When the error text renders,
  the error is printed and the loop goes on with the remaining lines; when rendering
  raises, \<open>MarkupError\<close> leaves \<open>chat\<close> with nothing printed.
\<close>

lemma failed_exchange_loop:
  assumes "lower (strip line) \<noteq> ''exit''" and "lower (strip line) \<noteq> ''quit''"
    and "fst (chat_completion_ollama env model
                (transcript w @ [\<lparr>m_role = ''user'', m_content = strip line\<rparr>])
                temperature max_tokens (DEFAULT_OLLAMA_URL env)
                (w\<lparr>transcript := transcript w @ [\<lparr>m_role = ''user'', m_content = strip line\<rparr>]\<rparr>)) =
         Inl e"
  shows "\<not> print_raises env (ErrorLine e) \<Longrightarrow>
         chat_loop env model temperature max_tokens (line # rest) w =
           chat_loop env model temperature max_tokens rest
             (w\<lparr>transcript := transcript w @ [\<lparr>m_role = ''user'', m_content = strip line\<rparr>],
               sent := sent w @
                 [chat_request model
                    (transcript w @ [\<lparr>m_role = ''user'', m_content = strip line\<rparr>])
                    temperature max_tokens (DEFAULT_OLLAMA_URL env)],
               console := console w @ [ErrorLine e]\<rparr>)"
    and "print_raises env (ErrorLine e) \<Longrightarrow>
         chat_loop env model temperature max_tokens (line # rest) w =
           (Uncaught MarkupError,
            w\<lparr>transcript := transcript w @ [\<lparr>m_role = ''user'', m_content = strip line\<rparr>],
              sent := sent w @
                [chat_request model
                   (transcript w @ [\<lparr>m_role = ''user'', m_content = strip line\<rparr>])
                   temperature max_tokens (DEFAULT_OLLAMA_URL env)]\<rparr>)"
  by (simp_all add: chat_turn_failure [OF assms])

text \<open>
  C4.  When the line, stripped and lower-cased, is \<open>exit\<close> or \<open>quit\<close> (by
  \<open>lower_exit_iff\<close> and \<open>lower_quit_iff\<close>: when the stripped line is one of these words
  in any mix of upper and lower case), the loop ends there: \<open>chat\<close> returns (exit status
  0), the state is unchanged, so no request was made for that line, and the remaining
  lines are not read.  For every other line the turn does not end in \<open>break\<close> and makes
  exactly one request, whose messages are the transcript followed by the user message
  of that line; after it the loop goes on with the remaining lines, unless printing
  raised \<open>MarkupError\<close>, which leaves \<open>chat\<close>.
\<close>

theorem exit_or_bridge_call:
  "(lower (strip line) = ''exit'' \<or> lower (strip line) = ''quit'' \<longrightarrow>
      chat_loop env model temperature max_tokens (line # rest) w = (Returned, w) \<and>
      exit_status (fst (chat_loop env model temperature max_tokens (line # rest) w)) = 0 \<and>
      sent (snd (chat_loop env model temperature max_tokens (line # rest) w)) = sent w) \<and>
   (lower (strip line) \<noteq> ''exit'' \<and> lower (strip line) \<noteq> ''quit'' \<longrightarrow>
      fst (chat_turn env model temperature max_tokens line w) \<noteq> Break \<and>
      sent (snd (chat_turn env model temperature max_tokens line w)) =
        sent w @
          [chat_request model (transcript w @ [\<lparr>m_role = ''user'', m_content = strip line\<rparr>])
             temperature max_tokens (DEFAULT_OLLAMA_URL env)] \<and>
      (fst (chat_turn env model temperature max_tokens line w) = Continue \<and>
       chat_loop env model temperature max_tokens (line # rest) w =
         chat_loop env model temperature max_tokens rest
           (snd (chat_turn env model temperature max_tokens line w)) \<or>
       fst (chat_turn env model temperature max_tokens line w) = Raised MarkupError \<and>
       chat_loop env model temperature max_tokens (line # rest) w =
         (Uncaught MarkupError, snd (chat_turn env model temperature max_tokens line w))))"
proof (intro conjI impI)
  assume a: "lower (strip line) = ''exit'' \<or> lower (strip line) = ''quit''"
  show "chat_loop env model temperature max_tokens (line # rest) w = (Returned, w)"
    by (simp add: chat_turn_exit [OF a])
  then show "exit_status (fst (chat_loop env model temperature max_tokens (line # rest) w)) = 0"
    and "sent (snd (chat_loop env model temperature max_tokens (line # rest) w)) = sent w"
    by (simp_all add: exit_status_def)
next
  assume a: "lower (strip line) \<noteq> ''exit'' \<and> lower (strip line) \<noteq> ''quit''"
  then have b: "lower (strip line) \<noteq> ''exit''" and c: "lower (strip line) \<noteq> ''quit''"
    by simp_all
  show "fst (chat_turn env model temperature max_tokens line w) \<noteq> Break"
    by (rule chat_turn_bridge(1) [OF b c])
  show "sent (snd (chat_turn env model temperature max_tokens line w)) =
        sent w @
          [chat_request model (transcript w @ [\<lparr>m_role = ''user'', m_content = strip line\<rparr>])
             temperature max_tokens (DEFAULT_OLLAMA_URL env)]"
    by (rule chat_turn_bridge(3) [OF b c])
  show "fst (chat_turn env model temperature max_tokens line w) = Continue \<and>
       chat_loop env model temperature max_tokens (line # rest) w =
         chat_loop env model temperature max_tokens rest
           (snd (chat_turn env model temperature max_tokens line w)) \<or>
       fst (chat_turn env model temperature max_tokens line w) = Raised MarkupError \<and>
       chat_loop env model temperature max_tokens (line # rest) w =
         (Uncaught MarkupError, snd (chat_turn env model temperature max_tokens line w))"
    using chat_turn_bridge(2) [OF b c, of env model temperature max_tokens w]
    by (subst chat_loop_step, subst chat_loop_step) auto
qed

text \<open>
  C10.  The user message appended in a turn, and sent with the request of that turn,
  holds the stripped line.  A line that is empty once stripped does not end the loop: an
  empty user message is appended and the request is made.
\<close>

theorem trimmed_input_is_sent:
  "(lower (strip line) \<noteq> ''exit'' \<and> lower (strip line) \<noteq> ''quit'' \<longrightarrow>
      take (Suc (length (transcript w)))
        (transcript (snd (chat_turn env model temperature max_tokens line w))) =
        transcript w @ [\<lparr>m_role = ''user'', m_content = strip line\<rparr>] \<and>
      p_messages (r_json (last (sent (snd (chat_turn env model temperature max_tokens line w))))) =
        transcript w @ [\<lparr>m_role = ''user'', m_content = strip line\<rparr>]) \<and>
   (strip line = [] \<longrightarrow>
      fst (chat_turn env model temperature max_tokens line w) \<noteq> Break \<and>
      take (Suc (length (transcript w)))
        (transcript (snd (chat_turn env model temperature max_tokens line w))) =
        transcript w @ [\<lparr>m_role = ''user'', m_content = []\<rparr>] \<and>
      sent (snd (chat_turn env model temperature max_tokens line w)) =
        sent w @
          [chat_request model (transcript w @ [\<lparr>m_role = ''user'', m_content = []\<rparr>])
             temperature max_tokens (DEFAULT_OLLAMA_URL env)])"
proof (intro conjI impI)
  assume "lower (strip line) \<noteq> ''exit'' \<and> lower (strip line) \<noteq> ''quit''"
  then have b: "lower (strip line) \<noteq> ''exit''" and c: "lower (strip line) \<noteq> ''quit''"
    by simp_all
  show "take (Suc (length (transcript w)))
        (transcript (snd (chat_turn env model temperature max_tokens line w))) =
        transcript w @ [\<lparr>m_role = ''user'', m_content = strip line\<rparr>]"
    by (rule chat_turn_bridge(4) [OF b c])
  show "p_messages (r_json (last (sent (snd (chat_turn env model temperature max_tokens line w))))) =
        transcript w @ [\<lparr>m_role = ''user'', m_content = strip line\<rparr>]"
    by (simp add: chat_turn_bridge(3) [OF b c] chat_request_def)
next
  assume e: "strip line = []"
  then have b: "lower (strip line) \<noteq> ''exit''" and c: "lower (strip line) \<noteq> ''quit''"
    by (simp_all add: lower_def)
  show "fst (chat_turn env model temperature max_tokens line w) \<noteq> Break"
    by (rule chat_turn_bridge(1) [OF b c])
  show "take (Suc (length (transcript w)))
        (transcript (snd (chat_turn env model temperature max_tokens line w))) =
        transcript w @ [\<lparr>m_role = ''user'', m_content = []\<rparr>]"
    using chat_turn_bridge(4) [OF b c, of w env model temperature max_tokens] e by simp
  show "sent (snd (chat_turn env model temperature max_tokens line w)) =
        sent w @
          [chat_request model (transcript w @ [\<lparr>m_role = ''user'', m_content = []\<rparr>])
             temperature max_tokens (DEFAULT_OLLAMA_URL env)]"
    using chat_turn_bridge(3) [OF b c, of env model temperature max_tokens w] e by simp
qed

section \<open>The system message\<close>

lemma seeded_snoc: "seeded ms \<Longrightarrow> m_role m \<noteq> ''system'' \<Longrightarrow> seeded (ms @ [m])"
  by (simp add: seeded_def)

lemma seeded_initial:
  "seeded (\<lparr>m_role = ''system'', m_content = SYSTEM_PROMPT\<rparr> #
           map (\<lambda>q. \<lparr>m_role = ''user'', m_content = q\<rparr>) qs)"
  by (induction qs) (simp_all add: seeded_def system_message_def)

lemma chat_turn_transcript_seeded:
  assumes "seeded (transcript w)"
  shows "seeded (transcript (snd (chat_turn env model temperature max_tokens line w)))"
proof (cases "lower (strip line) = ''exit'' \<or> lower (strip line) = ''quit''")
  case True
  then show ?thesis
    using assms by (simp add: chat_turn_exit)
next
  case False
  then have b: "lower (strip line) \<noteq> ''exit''" and c: "lower (strip line) \<noteq> ''quit''"
    by simp_all
  have asked: "seeded (transcript w @ [\<lparr>m_role = ''user'', m_content = strip line\<rparr>])"
    using assms by (simp add: seeded_snoc)
  show ?thesis
  proof (cases "fst (chat_completion_ollama env model
                (transcript w @ [\<lparr>m_role = ''user'', m_content = strip line\<rparr>])
                temperature max_tokens (DEFAULT_OLLAMA_URL env)
                (w\<lparr>transcript := transcript w @ [\<lparr>m_role = ''user'', m_content = strip line\<rparr>]\<rparr>))")
    case (Inl e)
    show ?thesis
      using asked by (simp add: chat_turn_failure [OF b c Inl])
  next
    case (Inr answer)
    have "seeded ((transcript w @ [\<lparr>m_role = ''user'', m_content = strip line\<rparr>]) @
                  [\<lparr>m_role = ''assistant'', m_content = answer\<rparr>])"
      using asked by (rule seeded_snoc) simp
    then show ?thesis
      by (simp add: chat_turn_success [OF b c Inr])
  qed
qed

lemma chat_turn_sent_seeded:
  assumes "seeded (transcript w)"
    and "\<forall>r\<in>set (sent w). seeded (p_messages (r_json r))"
  shows "\<forall>r\<in>set (sent (snd (chat_turn env model temperature max_tokens line w))).
            seeded (p_messages (r_json r))"
proof (cases "lower (strip line) = ''exit'' \<or> lower (strip line) = ''quit''")
  case True
  then show ?thesis
    using assms by (simp add: chat_turn_exit)
next
  case False
  then have b: "lower (strip line) \<noteq> ''exit''" and c: "lower (strip line) \<noteq> ''quit''"
    by simp_all
  have asked: "seeded (transcript w @ [\<lparr>m_role = ''user'', m_content = strip line\<rparr>])"
    using assms(1) by (simp add: seeded_snoc)
  show ?thesis
    using assms(2) asked by (simp add: chat_turn_bridge(3) [OF b c] chat_request_def)
qed

lemma chat_loop_seeded:
  "seeded (transcript w) \<Longrightarrow> \<forall>r\<in>set (sent w). seeded (p_messages (r_json r)) \<Longrightarrow>
   seeded (transcript (snd (chat_loop env model temperature max_tokens lines w))) \<and>
   (\<forall>r\<in>set (sent (snd (chat_loop env model temperature max_tokens lines w))).
      seeded (p_messages (r_json r)))"
proof (induction lines arbitrary: w)
  case Nil
  then show ?case by simp
next
  case (Cons line rest)
  have turn: "seeded (transcript (snd (chat_turn env model temperature max_tokens line w))) \<and>
         (\<forall>r\<in>set (sent (snd (chat_turn env model temperature max_tokens line w))).
            seeded (p_messages (r_json r)))"
    using Cons.prems by (simp add: chat_turn_transcript_seeded chat_turn_sent_seeded)
  show ?case
  proof (cases "fst (chat_turn env model temperature max_tokens line w)")
    case Break
    have stop: "chat_loop env model temperature max_tokens (line # rest) w =
        (Returned, snd (chat_turn env model temperature max_tokens line w))"
      by (simp only: chat_loop_step Break turn_end.case)
    show ?thesis
      unfolding stop snd_conv by (rule turn)
  next
    case Continue
    have go: "chat_loop env model temperature max_tokens (line # rest) w =
        chat_loop env model temperature max_tokens rest
          (snd (chat_turn env model temperature max_tokens line w))"
      by (simp only: chat_loop_step Continue turn_end.case)
    show ?thesis
      unfolding go by (rule Cons.IH [OF turn [THEN conjunct1] turn [THEN conjunct2]])
  next
    case (Raised x)
    have stop: "chat_loop env model temperature max_tokens (line # rest) w =
        (Uncaught x, snd (chat_turn env model temperature max_tokens line w))"
      by (simp only: chat_loop_step Raised turn_end.case)
    show ?thesis
      unfolding stop snd_conv by (rule turn)
  qed
qed

lemma chat_result:
  "chat env model temperature max_tokens lines =
     (if markup_raises env model then (Uncaught MarkupError, start)
      else chat_loop env model temperature max_tokens lines
             \<lparr>transcript = [\<lparr>m_role = ''system'', m_content = SYSTEM_PROMPT\<rparr>], sent = [],
              console = [Banner model]\<rparr>)"
  by (simp add: chat_def console_print_cases print_raises_def start_def)

lemma ask_sent:
  "snd (ask env question model temperature max_tokens) =
     \<lparr>transcript = [system_message, \<lparr>m_role = ''user'', m_content = question\<rparr>],
      sent = [chat_request model
                [system_message, \<lparr>m_role = ''user'', m_content = question\<rparr>]
                temperature max_tokens (DEFAULT_OLLAMA_URL env)],
      console = console (snd (ask env question model temperature max_tokens))\<rparr>"
proof -
  let ?w = "start\<lparr>transcript :=
                    [\<lparr>m_role = ''system'', m_content = SYSTEM_PROMPT\<rparr>,
                     \<lparr>m_role = ''user'', m_content = question\<rparr>]\<rparr>"
  let ?call = "chat_completion_ollama env model
                  [\<lparr>m_role = ''system'', m_content = SYSTEM_PROMPT\<rparr>,
                   \<lparr>m_role = ''user'', m_content = question\<rparr>]
                  temperature max_tokens (DEFAULT_OLLAMA_URL env) ?w"
  have pair: "?call = (fst ?call, snd ?call)"
    by simp
  have unfolded: "ask env question model temperature max_tokens =
      (case ?call of
         (Inl e, w') \<Rightarrow>
           (case console_print env (ErrorLine e) w' of
              Inl x \<Rightarrow> (Uncaught x, w')
            | Inr w'' \<Rightarrow> (Exit 1, w''))
       | (Inr answer, w') \<Rightarrow>
           (case console_print env (AnswerLine answer) w' of
              Inl x \<Rightarrow> (Uncaught x, w')
            | Inr w'' \<Rightarrow> (Returned, w'')))"
    by (simp add: ask_def Let_def)
  show ?thesis
    unfolding unfolded
    by (subst (1 2) pair)
       (simp add: cco_snd start_def system_message_def console_print_cases split: sum.split)
qed

text \<open>
  C5.  The system message has the role \<open>system\<close> and the persona text.  \<open>chat\<close> makes
  the transcript right after the banner: when printing the banner raises, \<open>chat\<close> ends
  there, before there is a transcript or a request; otherwise the transcript after
  \<open>chat\<close>, on any input, starts with the system message and holds no other message of
  role \<open>system\<close>.  So does the transcript after \<open>ask\<close>, and the message list of every
  request made by either.  Every turn of the loop keeps a transcript of that form in
  that form.
\<close>

theorem transcript_seeded:
  "m_role system_message = ''system'' \<and> m_content system_message = SYSTEM_PROMPT \<and>
   (markup_raises env model \<longrightarrow>
      chat env model temperature max_tokens lines = (Uncaught MarkupError, start)) \<and>
   (\<not> markup_raises env model \<longrightarrow>
      seeded (transcript (snd (chat env model temperature max_tokens lines)))) \<and>
   (\<forall>r\<in>set (sent (snd (chat env model temperature max_tokens lines))).
      seeded (p_messages (r_json r))) \<and>
   seeded (transcript (snd (ask env question model temperature max_tokens))) \<and>
   (\<forall>r\<in>set (sent (snd (ask env question model temperature max_tokens))).
      seeded (p_messages (r_json r))) \<and>
   (seeded (transcript w) \<longrightarrow>
      seeded (transcript (snd (chat_turn env model temperature max_tokens line w))))"
proof -
  have two: "seeded [system_message, \<lparr>m_role = ''user'', m_content = question\<rparr>]"
    using seeded_initial [of "[question]"] by (simp add: system_message_def)
  have loop: "seeded (transcript (snd (chat_loop env model temperature max_tokens lines
             \<lparr>transcript = [\<lparr>m_role = ''system'', m_content = SYSTEM_PROMPT\<rparr>], sent = [],
              console = [Banner model]\<rparr>))) \<and>
   (\<forall>r\<in>set (sent (snd (chat_loop env model temperature max_tokens lines
             \<lparr>transcript = [\<lparr>m_role = ''system'', m_content = SYSTEM_PROMPT\<rparr>], sent = [],
              console = [Banner model]\<rparr>))).
      seeded (p_messages (r_json r)))"
    using seeded_initial [of "[]"] by (intro chat_loop_seeded) simp_all
  have chat_seeded: "\<not> markup_raises env model \<longrightarrow>
      seeded (transcript (snd (chat env model temperature max_tokens lines)))"
    using loop by (simp add: chat_result)
  have chat_sent: "\<forall>r\<in>set (sent (snd (chat env model temperature max_tokens lines))).
      seeded (p_messages (r_json r))"
    using loop by (simp add: chat_result start_def)
  have ask_seeded: "seeded (transcript (snd (ask env question model temperature max_tokens)))"
    by (subst ask_sent) (simp add: two)
  have ask_sent_seeded: "\<forall>r\<in>set (sent (snd (ask env question model temperature max_tokens))).
      seeded (p_messages (r_json r))"
    by (subst ask_sent) (simp add: two chat_request_def)
  show ?thesis
    using chat_seeded chat_sent ask_seeded ask_sent_seeded
    by (simp add: system_message_def chat_result chat_turn_transcript_seeded)
qed

section \<open>The single question\<close>

lemma ask_result:
  "ask env question model temperature max_tokens =
     (case fst (chat_completion_ollama env model
                  [system_message, \<lparr>m_role = ''user'', m_content = question\<rparr>]
                  temperature max_tokens (DEFAULT_OLLAMA_URL env)
                  (start\<lparr>transcript :=
                           [system_message, \<lparr>m_role = ''user'', m_content = question\<rparr>]\<rparr>)) of
        Inl e \<Rightarrow>
          (if print_raises env (ErrorLine e)
           then (Uncaught MarkupError,
                 \<lparr>transcript = [system_message, \<lparr>m_role = ''user'', m_content = question\<rparr>],
                  sent = [chat_request model
                            [system_message, \<lparr>m_role = ''user'', m_content = question\<rparr>]
                            temperature max_tokens (DEFAULT_OLLAMA_URL env)],
                  console = []\<rparr>)
           else (Exit 1,
                 \<lparr>transcript = [system_message, \<lparr>m_role = ''user'', m_content = question\<rparr>],
                  sent = [chat_request model
                            [system_message, \<lparr>m_role = ''user'', m_content = question\<rparr>]
                            temperature max_tokens (DEFAULT_OLLAMA_URL env)],
                  console = [ErrorLine e]\<rparr>))
      | Inr answer \<Rightarrow>
          (if print_raises env (AnswerLine answer)
           then (Uncaught MarkupError,
                 \<lparr>transcript = [system_message, \<lparr>m_role = ''user'', m_content = question\<rparr>],
                  sent = [chat_request model
                            [system_message, \<lparr>m_role = ''user'', m_content = question\<rparr>]
                            temperature max_tokens (DEFAULT_OLLAMA_URL env)],
                  console = []\<rparr>)
           else (Returned,
                 \<lparr>transcript = [system_message, \<lparr>m_role = ''user'', m_content = question\<rparr>],
                  sent = [chat_request model
                            [system_message, \<lparr>m_role = ''user'', m_content = question\<rparr>]
                            temperature max_tokens (DEFAULT_OLLAMA_URL env)],
                  console = [AnswerLine answer]\<rparr>)))"
proof -
  let ?w = "start\<lparr>transcript :=
                    [system_message, \<lparr>m_role = ''user'', m_content = question\<rparr>]\<rparr>"
  let ?call = "chat_completion_ollama env model
                  [system_message, \<lparr>m_role = ''user'', m_content = question\<rparr>]
                  temperature max_tokens (DEFAULT_OLLAMA_URL env) ?w"
  have pair: "?call = (fst ?call, snd ?call)"
    by simp
  have unfolded: "ask env question model temperature max_tokens =
      (case ?call of
         (Inl e, w') \<Rightarrow>
           (case console_print env (ErrorLine e) w' of
              Inl x \<Rightarrow> (Uncaught x, w')
            | Inr w'' \<Rightarrow> (Exit 1, w''))
       | (Inr answer, w') \<Rightarrow>
           (case console_print env (AnswerLine answer) w' of
              Inl x \<Rightarrow> (Uncaught x, w')
            | Inr w'' \<Rightarrow> (Returned, w'')))"
    by (simp add: ask_def Let_def system_message_def)
  show ?thesis
    unfolding unfolded
    by (subst pair) (simp add: cco_snd start_def console_print_cases split: sum.split)
qed

text \<open>
  What \<open>ask\<close> does.  It makes exactly one request, whatever the question: its messages
  are the system message followed by one user message holding the question.  When the
  bridge returns an answer that renders, \<open>ask\<close> prints it and returns (exit status 0);
  when the answer does not render, \<open>MarkupError\<close> leaves \<open>ask\<close> (exit status 1) with
  nothing printed.  When the bridge raises, the exit status is 1, and the error is
  printed if it renders.
\<close>

lemma ask_single_shot:
  "sent (snd (ask env question model temperature max_tokens)) =
     [chat_request model [system_message, \<lparr>m_role = ''user'', m_content = question\<rparr>]
        temperature max_tokens (DEFAULT_OLLAMA_URL env)] \<and>
   (fst (chat_completion_ollama env model
           [system_message, \<lparr>m_role = ''user'', m_content = question\<rparr>]
           temperature max_tokens (DEFAULT_OLLAMA_URL env)
           (start\<lparr>transcript :=
                    [system_message, \<lparr>m_role = ''user'', m_content = question\<rparr>]\<rparr>)) =
      Inr answer \<and> \<not> markup_raises env answer \<longrightarrow>
    fst (ask env question model temperature max_tokens) = Returned \<and>
    exit_status (fst (ask env question model temperature max_tokens)) = 0 \<and>
    console (snd (ask env question model temperature max_tokens)) = [AnswerLine answer]) \<and>
   (fst (chat_completion_ollama env model
           [system_message, \<lparr>m_role = ''user'', m_content = question\<rparr>]
           temperature max_tokens (DEFAULT_OLLAMA_URL env)
           (start\<lparr>transcript :=
                    [system_message, \<lparr>m_role = ''user'', m_content = question\<rparr>]\<rparr>)) =
      Inr answer \<and> markup_raises env answer \<longrightarrow>
    fst (ask env question model temperature max_tokens) = Uncaught MarkupError \<and>
    exit_status (fst (ask env question model temperature max_tokens)) = 1 \<and>
    console (snd (ask env question model temperature max_tokens)) = []) \<and>
   (fst (chat_completion_ollama env model
           [system_message, \<lparr>m_role = ''user'', m_content = question\<rparr>]
           temperature max_tokens (DEFAULT_OLLAMA_URL env)
           (start\<lparr>transcript :=
                    [system_message, \<lparr>m_role = ''user'', m_content = question\<rparr>]\<rparr>)) =
      Inl e \<longrightarrow>
    exit_status (fst (ask env question model temperature max_tokens)) = 1 \<and>
    (\<not> print_raises env (ErrorLine e) \<longrightarrow>
       fst (ask env question model temperature max_tokens) = Exit 1 \<and>
       console (snd (ask env question model temperature max_tokens)) = [ErrorLine e]))"
  by (simp add: ask_result exit_status_def print_raises_def split: sum.split)

section \<open>The session at concrete inputs\<close>

lemma default_url_fixed: "DEFAULT_OLLAMA_URL (fixed_server res) = ''http://localhost:11434''"
  by (simp add: DEFAULT_OLLAMA_URL_def fixed_server_def)

lemma strip_examples:
  "strip '' Why save? '' = ''Why save?''"
  "strip ''How?'' = ''How?''"
  "strip ''  EXIT '' = ''EXIT''"
  "strip '' Quit'' = ''Quit''"
  "strip ''quit'' = ''quit''"
  "strip ''exit now'' = ''exit now''"
  "strip ''   '' = []"
  "strip '' An index fund tracks an index. '' = ''An index fund tracks an index.''"
  "strip ''see [/docs] for more'' = ''see [/docs] for more''"
  by (simp_all add: strip_def lstrip_def rstrip_def isspace_def)

lemma lower_examples:
  "lower ''Why save?'' \<noteq> ''exit''" "lower ''Why save?'' \<noteq> ''quit''"
  "lower ''How?'' \<noteq> ''exit''" "lower ''How?'' \<noteq> ''quit''"
  "lower ''EXIT'' = ''exit''"
  "lower ''Quit'' = ''quit''"
  "lower ''quit'' = ''quit''"
  "lower ''exit now'' \<noteq> ''exit''" "lower ''exit now'' \<noteq> ''quit''"
  by (simp_all add: lower_def lower_char_def char_of_def bit_Suc_0_iff)

lemma markup_examples:
  "\<not> markup_raises env ''qwen2.5:7b-instruct''"
  "\<not> markup_raises env ''Ollama request failed: timed out''"
  "\<not> markup_raises env
      ''Ollama request failed: 404 Client Error: Not Found for url: http://localhost:11434/api/chat''"
  "\<not> markup_raises env ''An index fund tracks an index.''"
  "markup_raises env
      ''Ollama request failed: 404 Client Error: [/oops] for url: http://localhost:11434/api/chat''"
  "markup_raises env ''see [/docs] for more''"
  by (simp_all add: markup_raises_def tag_char_def)

lemma failing_server:
  "fst (chat_completion_ollama (fixed_server (RequestException ''timed out''))
          model messages temperature max_tokens base_url w) =
     Inl (RuntimeError ''Ollama request failed: timed out'')"
  using cco_exception [of "fixed_server (RequestException ''timed out'')" w model messages
          temperature max_tokens base_url "''timed out''"]
  by (simp add: fixed_server_post)

lemma not_found_server:
  "fst (chat_completion_ollama (fixed_server (http_response 404 phrase None))
          model messages temperature max_tokens base_url w) =
     Inl (RuntimeError
           (''Ollama request failed: 404 Client Error: '' @ phrase @
            '' for url: http://localhost:11434/api/chat''))"
proof -
  let ?r = "\<lparr>status_code = 404, reason = phrase,
             resp_url = ''http://localhost:11434/api/chat'', resp_json = None\<rparr>"
  have digits: "str_nat 404 = ''404''"
    by (simp add: str_nat.simps char_of_def bit_Suc_0_iff)
  have refused: "raise_for_status ?r =
      Some (''404 Client Error: '' @ phrase @ '' for url: http://localhost:11434/api/chat'')"
    by (simp add: raise_for_status_def digits)
  have answered: "post (fixed_server (Response ?r)) (sent w)
      (chat_request model messages temperature max_tokens base_url) = Response ?r"
    by (rule fixed_server_post)
  show ?thesis
    unfolding http_response_def cco_status [OF answered refused] by simp
qed

lemma answering_server:
  "fst (chat_completion_ollama
          (fixed_server (http_response 200 ''OK''
             (Some (JObject [(''message'',
                              JObject [(''role'', JString ''assistant''),
                                       (''content'', JString text)])]))))
          model messages temperature max_tokens base_url w) =
     Inr (strip text)"
proof -
  let ?r = "\<lparr>status_code = 200, reason = ''OK'',
             resp_url = ''http://localhost:11434/api/chat'',
             resp_json = Some (JObject [(''message'',
                              JObject [(''role'', JString ''assistant''),
                                       (''content'', JString text)])])\<rparr>"
  have accepted: "raise_for_status ?r = None"
    by (simp add: raise_for_status_def)
  have answered: "post (fixed_server (Response ?r)) (sent w)
      (chat_request model messages temperature max_tokens base_url) = Response ?r"
    by (rule fixed_server_post)
  show ?thesis
    unfolding http_response_def cco_body [OF answered accepted]
    by (simp add: extract_content py_strip_def)
qed

text \<open>
  C3 at a failing input.  The server answers 404 with the reason phrase \<open>[/oops]\<close>.
  The bridge raises, and the handler prints the error text as markup: \<open>rich\<close> meets a
  closing tag with nothing open and raises \<open>MarkupError\<close>, which leaves \<open>chat\<close>.  The
  error is not printed and the loop does not go back to reading: the line \<open>quit\<close> is
  never read.  With the reason phrase \<open>Not Found\<close> the same session prints the error,
  reads \<open>quit\<close> and returns.
\<close>

theorem failed_exchange_markup_error:
  "chat (fixed_server (http_response 404 ''[/oops]'' None))
     ''qwen2.5:7b-instruct'' (0.4::real) 512 ['' Why save? '', ''quit''] =
     (Uncaught MarkupError,
      \<lparr>transcript = [system_message, \<lparr>m_role = ''user'', m_content = ''Why save?''\<rparr>],
       sent = [chat_request ''qwen2.5:7b-instruct''
                 [system_message, \<lparr>m_role = ''user'', m_content = ''Why save?''\<rparr>]
                 (0.4::real) 512 ''http://localhost:11434''],
       console = [Banner ''qwen2.5:7b-instruct'']\<rparr>) \<and>
   chat (fixed_server (http_response 404 ''Not Found'' None))
     ''qwen2.5:7b-instruct'' (0.4::real) 512 ['' Why save? '', ''quit''] =
     (Returned,
      \<lparr>transcript = [system_message, \<lparr>m_role = ''user'', m_content = ''Why save?''\<rparr>],
       sent = [chat_request ''qwen2.5:7b-instruct''
                 [system_message, \<lparr>m_role = ''user'', m_content = ''Why save?''\<rparr>]
                 (0.4::real) 512 ''http://localhost:11434''],
       console = [Banner ''qwen2.5:7b-instruct'',
                  ErrorLine (RuntimeError
                    ''Ollama request failed: 404 Client Error: Not Found for url: http://localhost:11434/api/chat'')]\<rparr>)"
proof -
  have h1: "lower (strip '' Why save? '') \<noteq> ''exit''"
    and h2: "lower (strip '' Why save? '') \<noteq> ''quit''"
    and h3: "lower (strip ''quit'') = ''exit'' \<or> lower (strip ''quit'') = ''quit''"
    by (simp_all only: strip_examples lower_examples not_False_eq_True simp_thms)
  note turn = chat_turn_failure
                [OF h1 h2 not_found_server,
                 unfolded strip_examples default_url_fixed print_raises_def printed.case
                   pyerr.case]
  have stop: "chat_turn env model temperature max_tokens ''quit'' w = (Break, w)"
    for env model temperature max_tokens and w :: "real world"
    using h3 by (rule chat_turn_exit)
  show ?thesis
    by (simp add: chat_result turn stop markup_examples system_message_def)
qed

text \<open>
  C6 at a failing input.  The bridge returns the answer \<open>see [/docs] for more\<close>;
  \<open>console.print(answer)\<close>, outside the \<open>try\<close>, raises \<open>MarkupError\<close>: after a successful
  call nothing is printed and the exit status is 1.
\<close>

theorem ask_markup_error:
  "ask (fixed_server (http_response 200 ''OK''
          (Some (JObject [(''message'',
                           JObject [(''role'', JString ''assistant''),
                                    (''content'', JString ''see [/docs] for more'')])]))))
     ''What is an index fund?'' ''qwen2.5:7b-instruct'' (0.4::real) 512 =
     (Uncaught MarkupError,
      \<lparr>transcript = [system_message,
                     \<lparr>m_role = ''user'', m_content = ''What is an index fund?''\<rparr>],
       sent = [chat_request ''qwen2.5:7b-instruct''
                 [system_message, \<lparr>m_role = ''user'', m_content = ''What is an index fund?''\<rparr>]
                 (0.4::real) 512 ''http://localhost:11434''],
       console = []\<rparr>) \<and>
   exit_status (fst (ask (fixed_server (http_response 200 ''OK''
          (Some (JObject [(''message'',
                           JObject [(''role'', JString ''assistant''),
                                    (''content'', JString ''see [/docs] for more'')])]))))
     ''What is an index fund?'' ''qwen2.5:7b-instruct'' (0.4::real) 512)) = 1"
  by (simp add: ask_result answering_server strip_examples default_url_fixed print_raises_def
        markup_examples exit_status_def)

lemma timed_out_turn:
  assumes "lower (strip line) \<noteq> ''exit''" and "lower (strip line) \<noteq> ''quit''"
  shows "chat_turn (fixed_server (RequestException ''timed out'')) model temperature max_tokens
           line w =
     (Continue,
      w\<lparr>transcript := transcript w @ [\<lparr>m_role = ''user'', m_content = strip line\<rparr>],
        sent := sent w @
          [chat_request model (transcript w @ [\<lparr>m_role = ''user'', m_content = strip line\<rparr>])
             temperature max_tokens ''http://localhost:11434''],
        console := console w @
          [ErrorLine (RuntimeError ''Ollama request failed: timed out'')]\<rparr>)"
  using chat_turn_failure [OF assms failing_server, of model temperature max_tokens w]
  by (simp add: default_url_fixed print_raises_def markup_examples)

text \<open>
  The two ways of a turn at concrete lines: \<open>EXIT\<close> and \<open>Quit\<close> between spaces end the
  loop with the state untouched; \<open>exit now\<close> is sent to the server, and the loop goes on
  to read \<open>Quit\<close>.
\<close>

theorem exit_or_bridge_call_witness:
  "chat_loop (fixed_server (RequestException ''timed out''))
     ''qwen2.5:7b-instruct'' (0.4::real) 512 [''  EXIT '', ''never read'']
     (start\<lparr>transcript := [system_message]\<rparr>) =
     (Returned, start\<lparr>transcript := [system_message]\<rparr>) \<and>
   chat_loop (fixed_server (RequestException ''timed out''))
     ''qwen2.5:7b-instruct'' (0.4::real) 512 ['' Quit'']
     (start\<lparr>transcript := [system_message]\<rparr>) =
     (Returned, start\<lparr>transcript := [system_message]\<rparr>) \<and>
   fst (chat_turn (fixed_server (RequestException ''timed out''))
          ''qwen2.5:7b-instruct'' (0.4::real) 512 ''exit now''
          (start\<lparr>transcript := [system_message]\<rparr>)) = Continue \<and>
   sent (snd (chat_turn (fixed_server (RequestException ''timed out''))
                ''qwen2.5:7b-instruct'' (0.4::real) 512 ''exit now''
                (start\<lparr>transcript := [system_message]\<rparr>))) =
     [chat_request ''qwen2.5:7b-instruct''
        [system_message, \<lparr>m_role = ''user'', m_content = ''exit now''\<rparr>]
        (0.4::real) 512 ''http://localhost:11434''] \<and>
   chat_loop (fixed_server (RequestException ''timed out''))
     ''qwen2.5:7b-instruct'' (0.4::real) 512 [''exit now'', '' Quit'']
     (start\<lparr>transcript := [system_message]\<rparr>) =
     (Returned,
      \<lparr>transcript = [system_message, \<lparr>m_role = ''user'', m_content = ''exit now''\<rparr>],
       sent = [chat_request ''qwen2.5:7b-instruct''
                 [system_message, \<lparr>m_role = ''user'', m_content = ''exit now''\<rparr>]
                 (0.4::real) 512 ''http://localhost:11434''],
       console = [ErrorLine (RuntimeError ''Ollama request failed: timed out'')]\<rparr>)"
proof -
  let ?env = "fixed_server (RequestException ''timed out'') :: real env"
  let ?w = "start\<lparr>transcript := [system_message]\<rparr> :: real world"
  have n1: "lower (strip ''exit now'') \<noteq> ''exit''"
    and n2: "lower (strip ''exit now'') \<noteq> ''quit''"
    by (simp_all only: strip_examples lower_examples not_False_eq_True)
  note turn = timed_out_turn [OF n1 n2]
  have quit: "chat_loop ?env ''qwen2.5:7b-instruct'' (0.4::real) 512 ('' Quit'' # rest) w =
      (Returned, w)" for rest w
    using exit_or_bridge_call [of "'' Quit''" ?env "''qwen2.5:7b-instruct''" "0.4" 512 rest w]
    by (simp add: strip_examples lower_examples)
  have exit: "chat_loop ?env ''qwen2.5:7b-instruct'' (0.4::real) 512 (''  EXIT '' # rest) w =
      (Returned, w)" for rest w
    using exit_or_bridge_call [of "''  EXIT ''" ?env "''qwen2.5:7b-instruct''" "0.4" 512 rest w]
    by (simp add: strip_examples lower_examples)
  have went_on: "chat_loop ?env ''qwen2.5:7b-instruct'' (0.4::real) 512
                   [''exit now'', '' Quit''] ?w =
      chat_loop ?env ''qwen2.5:7b-instruct'' (0.4::real) 512 ['' Quit'']
        (snd (chat_turn ?env ''qwen2.5:7b-instruct'' (0.4::real) 512 ''exit now'' ?w))"
    using exit_or_bridge_call
            [of "''exit now''" ?env "''qwen2.5:7b-instruct''" "0.4" 512 "['' Quit'']" ?w]
          n1 n2
    by (simp add: turn del: chat_loop.simps)
  show ?thesis
    unfolding went_on quit exit
    by (simp add: turn strip_examples start_def)
qed

text \<open>
  A line between spaces is sent stripped, and a line of spaces is sent as the empty
  message.
\<close>

theorem trimmed_input_is_sent_witness:
  "p_messages (r_json (last (sent (snd (chat_turn (fixed_server (RequestException ''timed out''))
                ''qwen2.5:7b-instruct'' (0.4::real) 512 '' Why save? ''
                (start\<lparr>transcript := [system_message]\<rparr>)))))) =
     [system_message, \<lparr>m_role = ''user'', m_content = ''Why save?''\<rparr>] \<and>
   fst (chat_turn (fixed_server (RequestException ''timed out''))
          ''qwen2.5:7b-instruct'' (0.4::real) 512 ''   ''
          (start\<lparr>transcript := [system_message]\<rparr>)) = Continue \<and>
   sent (snd (chat_turn (fixed_server (RequestException ''timed out''))
                ''qwen2.5:7b-instruct'' (0.4::real) 512 ''   ''
                (start\<lparr>transcript := [system_message]\<rparr>))) =
     [chat_request ''qwen2.5:7b-instruct''
        [system_message, \<lparr>m_role = ''user'', m_content = []\<rparr>]
        (0.4::real) 512 ''http://localhost:11434'']"
proof -
  let ?env = "fixed_server (RequestException ''timed out'') :: real env"
  let ?w = "start\<lparr>transcript := [system_message]\<rparr> :: real world"
  have n1: "lower (strip ''   '') \<noteq> ''exit''"
    and n2: "lower (strip ''   '') \<noteq> ''quit''"
    by (simp_all add: strip_examples lower_def)
  have went_on: "fst (chat_turn ?env ''qwen2.5:7b-instruct'' (0.4::real) 512 ''   '' ?w) = Continue"
    by (simp add: timed_out_turn [OF n1 n2])
  show ?thesis
    using trimmed_input_is_sent
            [of "'' Why save? ''" ?w ?env "''qwen2.5:7b-instruct''" "0.4" 512]
          trimmed_input_is_sent
            [of "''   ''" ?w ?env "''qwen2.5:7b-instruct''" "0.4" 512]
          went_on
    by (simp add: strip_examples lower_examples default_url_fixed start_def)
qed

text \<open>
  A session of one question and \<open>EXIT\<close>: the one request made carries a seeded message
  list, and the transcripts of \<open>chat\<close>, \<open>ask\<close> and of a single turn are seeded.  With the
  model name \<open>[/b]\<close> the banner raises and \<open>chat\<close> ends at once.
\<close>

theorem transcript_seeded_witness:
  "seeded (transcript (snd (chat (fixed_server (http_response 200 ''OK''
             (Some (JObject [(''message'',
                              JObject [(''role'', JString ''assistant''),
                                       (''content'', JString '' An index fund tracks an index. '')])]))))
           ''qwen2.5:7b-instruct'' (0.4::real) 512 ['' Why save? '', ''  EXIT '']))) \<and>
   sent (snd (chat (fixed_server (http_response 200 ''OK''
             (Some (JObject [(''message'',
                              JObject [(''role'', JString ''assistant''),
                                       (''content'', JString '' An index fund tracks an index. '')])]))))
           ''qwen2.5:7b-instruct'' (0.4::real) 512 ['' Why save? '', ''  EXIT ''])) =
     [chat_request ''qwen2.5:7b-instruct''
        [system_message, \<lparr>m_role = ''user'', m_content = ''Why save?''\<rparr>]
        (0.4::real) 512 ''http://localhost:11434''] \<and>
   seeded (p_messages (r_json (chat_request ''qwen2.5:7b-instruct''
        [system_message, \<lparr>m_role = ''user'', m_content = ''Why save?''\<rparr>]
        (0.4::real) 512 ''http://localhost:11434''))) \<and>
   seeded (transcript (snd (ask (fixed_server (http_response 200 ''OK''
             (Some (JObject [(''message'',
                              JObject [(''role'', JString ''assistant''),
                                       (''content'', JString '' An index fund tracks an index. '')])]))))
           ''What is an index fund?'' ''qwen2.5:7b-instruct'' (0.4::real) 512))) \<and>
   seeded (transcript (snd (chat_turn (fixed_server (RequestException ''timed out''))
           ''qwen2.5:7b-instruct'' (0.4::real) 512 '' Why save? ''
           (start\<lparr>transcript := [system_message]\<rparr>)))) \<and>
   chat (fixed_server (RequestException ''timed out'')) ''[/b]'' (0.4::real) 512
     ['' Why save? '', ''  EXIT ''] = (Uncaught MarkupError, start)"
proof -
  let ?good = "fixed_server (http_response 200 ''OK''
             (Some (JObject [(''message'',
                              JObject [(''role'', JString ''assistant''),
                                       (''content'', JString '' An index fund tracks an index. '')])])))
             :: real env"
  let ?bad = "fixed_server (RequestException ''timed out'') :: real env"
  have h1: "lower (strip '' Why save? '') \<noteq> ''exit''"
    and h2: "lower (strip '' Why save? '') \<noteq> ''quit''"
    and h3: "lower (strip ''  EXIT '') = ''exit'' \<or> lower (strip ''  EXIT '') = ''quit''"
    by (simp_all only: strip_examples lower_examples not_False_eq_True simp_thms)
  note turn1 = chat_turn_success
                 [OF h1 h2 answering_server,
                  unfolded strip_examples default_url_fixed print_raises_def printed.case]
  have turn2: "chat_turn ?good model temperature max_tokens ''  EXIT '' w = (Break, w)"
    for model temperature max_tokens and w :: "real world"
    using h3 by (rule chat_turn_exit)
  have run: "sent (snd (chat ?good ''qwen2.5:7b-instruct'' (0.4::real) 512
                          ['' Why save? '', ''  EXIT ''])) =
     [chat_request ''qwen2.5:7b-instruct''
        [system_message, \<lparr>m_role = ''user'', m_content = ''Why save?''\<rparr>]
        (0.4::real) 512 ''http://localhost:11434'']"
    by (simp add: chat_result turn1 turn2 markup_examples system_message_def)
  have tagged: "markup_raises ?bad ''[/b]''"
    by (simp add: markup_raises_def tag_char_def)
  note inst = transcript_seeded
                [where env = ?good and model = "''qwen2.5:7b-instruct''" and temperature = "0.4"
                   and max_tokens = 512 and lines = "['' Why save? '', ''  EXIT '']"
                   and question = "''What is an index fund?''"]
  have a: "seeded (transcript (snd (chat ?good ''qwen2.5:7b-instruct'' (0.4::real) 512
                                      ['' Why save? '', ''  EXIT ''])))"
    using inst by (simp add: markup_examples)
  have b: "seeded (p_messages (r_json (chat_request ''qwen2.5:7b-instruct''
        [system_message, \<lparr>m_role = ''user'', m_content = ''Why save?''\<rparr>]
        (0.4::real) 512 ''http://localhost:11434'')))"
    using inst unfolding run by simp
  have c: "seeded (transcript (snd (ask ?good ''What is an index fund?'' ''qwen2.5:7b-instruct''
                                     (0.4::real) 512)))"
    using inst by simp
  have d: "seeded (transcript (snd (chat_turn ?bad ''qwen2.5:7b-instruct'' (0.4::real) 512
                                      '' Why save? '' (start\<lparr>transcript := [system_message]\<rparr>))))"
    using transcript_seeded
            [where env = ?bad and model = "''qwen2.5:7b-instruct''" and temperature = "0.4"
               and max_tokens = 512 and w = "start\<lparr>transcript := [system_message]\<rparr>"
               and line = "'' Why save? ''"]
          seeded_initial [of "[]"]
    by (simp add: system_message_def)
  have e: "chat ?bad ''[/b]'' (0.4::real) 512 ['' Why save? '', ''  EXIT ''] =
      (Uncaught MarkupError, start)"
    using transcript_seeded
            [where env = ?bad and model = "''[/b]''" and temperature = "0.4"
               and max_tokens = 512 and lines = "['' Why save? '', ''  EXIT '']"]
          tagged
    by simp
  show ?thesis
    using a b c d e run by (simp only: simp_thms)
qed


end
